theory Spec2Isabelle
  imports
    Complex_Main
    "HOL-Library.AList"
    "HOL-Library.Char_ord"
    "HOL-Library.List_Lexorder"
    "HOL-Library.Product_Lexorder"
    "HOL-Library.Multiset"
begin

section \<open>JavaScript values and objects\<close>

text \<open>
  The class \<^verbatim>\<open>VNPay\<close> of \<^verbatim>\<open>src/vnpay.ts\<close> works on plain JavaScript objects whose
  properties hold strings and numbers. A value is one of the primitive kinds below. Numbers
  are the exact rationals together with \<open>NaN\<close>: the rounding of IEEE doubles, the infinities
  and the negative zero are not represented, and no statement below depends on them.
  Strings are byte strings (the UTF-8 encoding of the JavaScript string).
\<close>

datatype jsnum = NaN | Num rat

datatype jsval = JUndefined | JNull | JBool bool | JNum jsnum | JStr string

text \<open>
  An object is the list of its own properties in enumeration order, as
  \<^verbatim>\<open>Object.entries\<close> returns them. A well-formed object has no property name twice.
  Writing a property keeps its place when it exists and appends it otherwise
  (\<^const>\<open>AList.update\<close>); \<^verbatim>\<open>delete\<close> is \<^const>\<open>AList.delete\<close>.
\<close>

type_synonym obj = "(string \<times> jsval) list"

definition obj_get :: "obj \<Rightarrow> string \<Rightarrow> jsval" where
  "obj_get ob k = (case map_of ob k of None \<Rightarrow> JUndefined | Some v \<Rightarrow> v)"

definition obj_set :: "obj \<Rightarrow> string \<Rightarrow> jsval \<Rightarrow> obj" where
  "obj_set ob k v = AList.update k v ob"

text \<open>The object spread \<^verbatim>\<open>{...a, ...b}\<close> and \<^verbatim>\<open>Object.assign(a, b)\<close>.\<close>

definition obj_assign :: "obj \<Rightarrow> obj \<Rightarrow> obj" where
  "obj_assign a b = fold (\<lambda>(k, v) acc. AList.update k v acc) b a"

text \<open>Errors thrown by the code: \<^verbatim>\<open>new Error(msg)\<close>, and the \<^verbatim>\<open>TypeError\<close> of \<^verbatim>\<open>new URL\<close>.\<close>

datatype js_error = Error string | TypeError string

subsection \<open>Coercions\<close>

text \<open>\<^verbatim>\<open>!value\<close> is false exactly for the truthy values.\<close>

definition truthy :: "jsval \<Rightarrow> bool" where
  "truthy v = (case v of
      JUndefined \<Rightarrow> False
    | JNull \<Rightarrow> False
    | JBool b \<Rightarrow> b
    | JNum NaN \<Rightarrow> False
    | JNum (Num r) \<Rightarrow> r \<noteq> 0
    | JStr s \<Rightarrow> s \<noteq> [])"

text \<open>\<^verbatim>\<open>a ?? b\<close>\<close>

definition nullish :: "jsval \<Rightarrow> jsval \<Rightarrow> jsval" where
  "nullish a b = (if a = JUndefined \<or> a = JNull then b else a)"

definition num_mul :: "jsnum \<Rightarrow> jsnum \<Rightarrow> jsnum" where
  "num_mul a b = (case (a, b) of (Num x, Num y) \<Rightarrow> Num (x * y) | _ \<Rightarrow> NaN)"

text \<open>Division is used with the divisor 100 only; a zero divisor gives \<open>NaN\<close> here.\<close>

definition num_div :: "jsnum \<Rightarrow> jsnum \<Rightarrow> jsnum" where
  "num_div a b = (case (a, b) of (Num x, Num y) \<Rightarrow> (if y = 0 then NaN else Num (x / y)) | _ \<Rightarrow> NaN)"

text \<open>\<^verbatim>\<open>Number(x) >= 90 && Number(x) <= 99\<close>; every comparison with \<open>NaN\<close> is false.\<close>

definition in_soft_range :: "jsnum \<Rightarrow> bool" where
  "in_soft_range n = (case n of NaN \<Rightarrow> False | Num r \<Rightarrow> 90 \<le> r \<and> r \<le> 99)"

section \<open>The URL query serializer\<close>

text \<open>
  \<^verbatim>\<open>URLSearchParams\<close> serializes its list of pairs with the
  \<^verbatim>\<open>application/x-www-form-urlencoded\<close> byte serializer: a space becomes \<open>+\<close>, the bytes
  \<open>* - . _\<close>, digits and ASCII letters stand for themselves, every other byte becomes
  \<open>%XX\<close> in upper-case hexadecimal; pairs are written \<open>name=value\<close> and joined with \<open>&\<close>.
\<close>

definition unreserved :: "char \<Rightarrow> bool" where
  "unreserved c = (let n = (of_char c :: nat) in
     n = 42 \<or> n = 45 \<or> n = 46 \<or> n = 95 \<or> (48 \<le> n \<and> n \<le> 57) \<or> (65 \<le> n \<and> n \<le> 90) \<or> (97 \<le> n \<and> n \<le> 122))"

definition hex_digit :: "nat \<Rightarrow> char" where
  "hex_digit n = (if n < 10 then char_of (48 + n) else char_of (55 + n))"

definition encode_byte :: "char \<Rightarrow> string" where
  "encode_byte c =
     (if c = CHR '' '' then ''+''
      else if unreserved c then [c]
      else [CHR ''%'', hex_digit ((of_char c :: nat) div 16), hex_digit ((of_char c :: nat) mod 16)])"

definition urlencode :: "string \<Rightarrow> string" where
  "urlencode s = concat (map encode_byte s)"

fun join :: "string \<Rightarrow> string list \<Rightarrow> string" where
  "join sep [] = []"
| "join sep [x] = x"
| "join sep (x # y # ys) = x @ sep @ join sep (y # ys)"

definition serialize :: "(string \<times> string) list \<Rightarrow> string" where
  "serialize ps = join ''&'' (map (\<lambda>(k, v). urlencode k @ ''='' @ urlencode v) ps)"

text \<open>
  The matching parser (\<^verbatim>\<open>new URLSearchParams(string)\<close>): split at \<open>&\<close>, drop empty
  pieces, split each piece at its first \<open>=\<close>, turn \<open>+\<close> into a space and decode \<open>%XX\<close>.
\<close>

definition hex_val :: "char \<Rightarrow> nat option" where
  "hex_val c = (let n = (of_char c :: nat) in
     if 48 \<le> n \<and> n \<le> 57 then Some (n - 48)
     else if 65 \<le> n \<and> n \<le> 70 then Some (n - 55)
     else if 97 \<le> n \<and> n \<le> 102 then Some (n - 87)
     else None)"

fun percent_decode :: "string \<Rightarrow> string" where
  "percent_decode [] = []"
| "percent_decode (c # cs) =
     (if c = CHR ''%'' then
        (case cs of
           a # b # rest \<Rightarrow>
             (case (hex_val a, hex_val b) of
                (Some x, Some y) \<Rightarrow> char_of (16 * x + y) # percent_decode rest
              | _ \<Rightarrow> c # percent_decode cs)
         | _ \<Rightarrow> c # percent_decode cs)
      else (if c = CHR ''+'' then CHR '' '' else c) # percent_decode cs)"

fun split_on :: "char \<Rightarrow> string \<Rightarrow> string list" where
  "split_on sep [] = [[]]"
| "split_on sep (c # cs) =
     (if c = sep then [] # split_on sep cs
      else (case split_on sep cs of [] \<Rightarrow> [[c]] | p # ps \<Rightarrow> (c # p) # ps))"

definition parse_pair :: "string \<Rightarrow> string \<times> string" where
  "parse_pair s =
     (percent_decode (takeWhile (\<lambda>c. c \<noteq> CHR ''='') s),
      percent_decode (drop 1 (dropWhile (\<lambda>c. c \<noteq> CHR ''='') s)))"

definition parse_urlencoded :: "string \<Rightarrow> (string \<times> string) list" where
  "parse_urlencoded s = map parse_pair (filter (\<lambda>p. p \<noteq> []) (split_on CHR ''&'' s))"

section \<open>Sorting with a comparator\<close>

text \<open>
  \<^verbatim>\<open>Array.prototype.sort(compare)\<close> is a stable sort: an element goes before the first
  element it does not compare greater than.
\<close>

fun insert_by :: "('a \<Rightarrow> 'a \<Rightarrow> int) \<Rightarrow> 'a \<Rightarrow> 'a list \<Rightarrow> 'a list" where
  "insert_by cmp x [] = [x]"
| "insert_by cmp x (y # ys) = (if cmp x y \<le> 0 then x # y # ys else y # insert_by cmp x ys)"

definition sort_by :: "('a \<Rightarrow> 'a \<Rightarrow> int) \<Rightarrow> 'a list \<Rightarrow> 'a list" where
  "sort_by cmp xs = foldr (insert_by cmp) xs []"

section \<open>What the class imports\<close>

text \<open>
  \<^verbatim>\<open>vnpay.ts\<close> imports its constants from \<^verbatim>\<open>./constants\<close> and the helpers \<^verbatim>\<open>hash\<close>,
  \<^verbatim>\<open>getResponseByStatusCode\<close>, \<^verbatim>\<open>isValidVnpayDateFormat\<close>, \<^verbatim>\<open>resolveUrlString\<close> and
  \<^verbatim>\<open>dateFormat\<close> from \<^verbatim>\<open>./utils/common\<close>. These, and the parts of the JavaScript
  runtime whose results the class only passes on, are parameters of the model, collected in
  the record \<open>env\<close>:
  \<^item> \<open>hash secret payload algorithm\<close> is the keyed digest in hexadecimal;
  \<^item> \<open>getResponseByStatusCode code locale table\<close> looks a message up; \<open>code\<close> is \<open>None\<close>
    when the argument is \<^verbatim>\<open>undefined\<close>;
  \<^item> \<open>dateFormat_now\<close> is the value of
    \<^verbatim>\<open>dateFormat(new Date(timeGMT7), 'yyyyMMddHHmmss')\<close> at the time of the call;
  \<^item> \<open>localeCompare\<close> is \<^verbatim>\<open>String.prototype.localeCompare\<close>, the collation of the host's
    locale;
  \<^item> \<open>stringToNumber\<close> is \<^verbatim>\<open>Number\<close> on a string and \<open>numberToString\<close> is
    \<^verbatim>\<open>Number.prototype.toString\<close>;
  \<^item> \<open>URL_new\<close> is \<^verbatim>\<open>new URL(s)\<close>, \<open>None\<close> when it throws;
  \<^item> \<open>fetch url body\<close> is the POST of the JSON of \<open>body\<close>, \<open>Inl\<close> when the promise rejects.
\<close>

datatype response_map = RESPONSE_MAP | QUERY_DR_RESPONSE_MAP | REFUND_RESPONSE_MAP

text \<open>
  A parsed URL: everything before the query, the list behind \<^verbatim>\<open>searchParams\<close>, and the
  fragment (empty, or starting with \<open>#\<close>).
\<close>

record url =
  url_base :: string
  url_searchParams :: "(string \<times> string) list"
  url_fragment :: string

record http_response =
  ok :: bool
  status :: jsnum
  json :: "js_error + obj"

record env =
  VNPAY_GATEWAY_SANDBOX_HOST :: string
  PAYMENT_ENDPOINT :: string
  VNP_VERSION :: string
  QUERY_DR_REFUND_ENDPOINT :: string
  hash :: "string \<Rightarrow> string \<Rightarrow> string \<Rightarrow> string"
  getResponseByStatusCode :: "string option \<Rightarrow> string \<Rightarrow> response_map \<Rightarrow> string"
  isValidVnpayDateFormat :: "jsval \<Rightarrow> bool"
  resolveUrlString :: "string \<Rightarrow> string \<Rightarrow> string"
  dateFormat_now :: jsval
  localeCompare :: "string \<Rightarrow> string \<Rightarrow> int"
  stringToNumber :: "string \<Rightarrow> jsnum"
  numberToString :: "jsnum \<Rightarrow> string"
  URL_new :: "string \<Rightarrow> url option"
  fetch :: "string \<Rightarrow> obj \<Rightarrow> js_error + http_response"

definition ToNumber :: "env \<Rightarrow> jsval \<Rightarrow> jsnum" where
  "ToNumber e v = (case v of
      JUndefined \<Rightarrow> NaN
    | JNull \<Rightarrow> Num 0
    | JBool b \<Rightarrow> Num (if b then 1 else 0)
    | JNum n \<Rightarrow> n
    | JStr s \<Rightarrow> stringToNumber e s)"

text \<open>The string a template literal \<^verbatim>\<open>${v}\<close> and \<^verbatim>\<open>v.toString()\<close> produce.\<close>

definition toString :: "env \<Rightarrow> jsval \<Rightarrow> string" where
  "toString e v = (case v of
      JUndefined \<Rightarrow> ''undefined''
    | JNull \<Rightarrow> ''null''
    | JBool b \<Rightarrow> (if b then ''true'' else ''false'')
    | JNum n \<Rightarrow> numberToString e n
    | JStr s \<Rightarrow> s)"

text \<open>\<^verbatim>\<open>v?.toString()\<close>\<close>

definition opt_toString :: "env \<Rightarrow> jsval \<Rightarrow> string option" where
  "opt_toString e v = (if v = JUndefined \<or> v = JNull then None else Some (toString e v))"

definition url_search :: "url \<Rightarrow> string" where
  "url_search u = (let q = serialize (url_searchParams u) in if q = [] then [] else CHR ''?'' # q)"

definition url_toString :: "url \<Rightarrow> string" where
  "url_toString u = url_base u @ url_search u @ url_fragment u"

section \<open>The class VNPay\<close>

text \<open>
  The state of an instance after its constructor: \<^verbatim>\<open>globalDefaultConfig\<close> and
  \<^verbatim>\<open>HASH_ALGORITHM\<close>. A field the code reads with \<^verbatim>\<open>??\<close> is an option.
\<close>

record VNPay =
  vnpayHost :: "string option"
  paymentEndpoint :: "string option"
  tmnCode :: string
  secureSecret :: string
  vnp_Version :: "string option"
  vnp_CurrCode :: string
  vnp_Locale :: string
  vnp_Command :: string
  vnp_OrderType :: string
  HASH_ALGORITHM :: string

definition opt_str :: "string option \<Rightarrow> jsval" where
  "opt_str x = (case x of None \<Rightarrow> JUndefined | Some s \<Rightarrow> JStr s)"

definition defaultConfig :: "VNPay \<Rightarrow> obj" where
  "defaultConfig this =
     [(''vnp_TmnCode'', JStr (tmnCode this)),
      (''vnp_Version'', opt_str (vnp_Version this)),
      (''vnp_CurrCode'', JStr (vnp_CurrCode this)),
      (''vnp_Locale'', JStr (vnp_Locale this)),
      (''vnp_Command'', JStr (vnp_Command this)),
      (''vnp_OrderType'', JStr (vnp_OrderType this))]"

definition host_or_sandbox :: "env \<Rightarrow> VNPay \<Rightarrow> string" where
  "host_or_sandbox e this =
     (case vnpayHost this of None \<Rightarrow> VNPAY_GATEWAY_SANDBOX_HOST e | Some h \<Rightarrow> h)"

definition compare_keys :: "env \<Rightarrow> string \<times> jsval \<Rightarrow> string \<times> jsval \<Rightarrow> int" where
  "compare_keys e p1 p2 = localeCompare e (fst p1) (fst p2)"

subsection \<open>buildPaymentUrl\<close>

definition buildPaymentUrl_dataToBuild :: "env \<Rightarrow> VNPay \<Rightarrow> obj \<Rightarrow> obj" where
  "buildPaymentUrl_dataToBuild e this data =
     (let dataToBuild = obj_assign (defaultConfig this) data;
          dataToBuild = obj_set dataToBuild ''vnp_Amount''
            (JNum (num_mul (ToNumber e (obj_get dataToBuild ''vnp_Amount'')) (Num 100)))
      in if \<not> isValidVnpayDateFormat e (nullish (obj_get dataToBuild ''vnp_CreateDate'') (JNum (Num 0)))
         then obj_set dataToBuild ''vnp_CreateDate'' (dateFormat_now e)
         else dataToBuild)"

text \<open>The body of the \<^verbatim>\<open>forEach\<close>: skip an empty value, append the others.\<close>

definition build_append :: "env \<Rightarrow> string \<times> jsval \<Rightarrow> (string \<times> string) list \<Rightarrow> (string \<times> string) list" where
  "build_append e p sp =
     (if \<not> truthy (snd p) \<or> snd p = JStr [] \<or> snd p = JUndefined \<or> snd p = JNull then sp
      else sp @ [(fst p, toString e (snd p))])"

definition buildPaymentUrl_searchParams :: "env \<Rightarrow> VNPay \<Rightarrow> obj \<Rightarrow> (string \<times> string) list \<Rightarrow> (string \<times> string) list" where
  "buildPaymentUrl_searchParams e this data sp0 =
     fold (build_append e) (sort_by (compare_keys e) (buildPaymentUrl_dataToBuild e this data)) sp0"

text \<open>The \<^verbatim>\<open>new URL(resolveUrlString(host, endpoint))\<close> of the function, \<open>None\<close> when it throws.\<close>

definition payment_endpoint :: "env \<Rightarrow> VNPay \<Rightarrow> url option" where
  "payment_endpoint e this =
     URL_new e (resolveUrlString e (host_or_sandbox e this)
        (case paymentEndpoint this of None \<Rightarrow> PAYMENT_ENDPOINT e | Some p \<Rightarrow> p))"

definition buildPaymentUrl_url :: "env \<Rightarrow> VNPay \<Rightarrow> obj \<Rightarrow> js_error + url" where
  "buildPaymentUrl_url e this data =
     (case payment_endpoint e this of
        None \<Rightarrow> Inl (TypeError ''Invalid URL'')
      | Some redirectUrl \<Rightarrow>
         (let redirectUrl = redirectUrl\<lparr>url_searchParams :=
                buildPaymentUrl_searchParams e this data (url_searchParams redirectUrl)\<rparr>;
              signed = hash e (secureSecret this) (drop 1 (url_search redirectUrl)) (HASH_ALGORITHM this)
          in Inr (redirectUrl\<lparr>url_searchParams :=
                url_searchParams redirectUrl @ [(''vnp_SecureHash'', signed)]\<rparr>)))"

definition buildPaymentUrl :: "env \<Rightarrow> VNPay \<Rightarrow> obj \<Rightarrow> js_error + string" where
  "buildPaymentUrl e this data =
     (case buildPaymentUrl_url e this data of Inl err \<Rightarrow> Inl err | Inr u \<Rightarrow> Inr (url_toString u))"

subsection \<open>verifyReturnUrl and verifyIpnCall\<close>

definition verify_append :: "env \<Rightarrow> string \<times> jsval \<Rightarrow> (string \<times> string) list \<Rightarrow> (string \<times> string) list" where
  "verify_append e p sp =
     (if snd p = JStr [] \<or> snd p = JUndefined \<or> snd p = JNull then sp
      else sp @ [(fst p, toString e (snd p))])"

text \<open>The two \<^verbatim>\<open>delete\<close> statements: the argument as the call leaves it.\<close>

definition verifyReturnUrl_query :: "obj \<Rightarrow> obj" where
  "verifyReturnUrl_query query =
     AList.delete ''vnp_SecureHashType'' (AList.delete ''vnp_SecureHash'' query)"

definition verifyReturnUrl_searchParams :: "env \<Rightarrow> obj \<Rightarrow> (string \<times> string) list" where
  "verifyReturnUrl_searchParams e query =
     fold (verify_append e) (sort_by (compare_keys e) (verifyReturnUrl_query query)) []"

definition verifyReturnUrl_signed :: "env \<Rightarrow> VNPay \<Rightarrow> obj \<Rightarrow> string" where
  "verifyReturnUrl_signed e this query =
     hash e (secureSecret this) (serialize (verifyReturnUrl_searchParams e query)) (HASH_ALGORITHM this)"

text \<open>
  The result pairs the returned object with the argument object after the call, since the
  function deletes two properties of its argument.
\<close>

definition verifyReturnUrl :: "env \<Rightarrow> VNPay \<Rightarrow> obj \<Rightarrow> obj \<times> obj" where
  "verifyReturnUrl e this query0 =
     (let secureHash = obj_get query0 ''vnp_SecureHash'';
          query = verifyReturnUrl_query query0;
          outputResults =
            [(''isVerified'', JBool True),
             (''isSuccess'', JBool (obj_get query ''vnp_ResponseCode'' = JStr ''00'')),
             (''message'', JStr (getResponseByStatusCode e
                (Some (case opt_toString e (obj_get query ''vnp_ResponseCode'') of
                         None \<Rightarrow> [] | Some s \<Rightarrow> s))
                (vnp_Locale this) RESPONSE_MAP))];
          signed = verifyReturnUrl_signed e this query0;
          outputResults =
            (if secureHash \<noteq> JStr signed
             then obj_assign outputResults
                    [(''isVerified'', JBool False), (''message'', JStr ''Wrong checksum'')]
             else outputResults)
      in (obj_set (obj_assign query outputResults) ''vnp_Amount''
            (JNum (num_div (ToNumber e (obj_get query ''vnp_Amount'')) (Num 100))),
          query))"

definition verifyIpnCall :: "env \<Rightarrow> VNPay \<Rightarrow> obj \<Rightarrow> obj \<times> obj" where
  "verifyIpnCall e this query = verifyReturnUrl e this query"

subsection \<open>queryDr\<close>

text \<open>\<^verbatim>\<open>s.replace(/undefined/g, '')\<close>: one pass from the left over the matches.\<close>

function remove_undefined :: "string \<Rightarrow> string" where
  "remove_undefined [] = []"
| "remove_undefined (c # cs) =
     (if take 9 (c # cs) = ''undefined'' then remove_undefined (drop 9 (c # cs))
      else c # remove_undefined cs)"
  by pat_completeness auto
termination
  by (relation "measure length") auto

definition queryDr_dataQuery :: "env \<Rightarrow> VNPay \<Rightarrow> obj \<Rightarrow> obj" where
  "queryDr_dataQuery e this query =
     obj_assign
       [(''vnp_Version'', JStr (case vnp_Version this of None \<Rightarrow> VNP_VERSION e | Some v \<Rightarrow> v))]
       query"

definition queryDr_stringToCheckSum :: "env \<Rightarrow> VNPay \<Rightarrow> obj \<Rightarrow> string" where
  "queryDr_stringToCheckSum e this dataQuery =
     toString e (obj_get dataQuery ''vnp_RequestId'') @ ''|'' @
     toString e (obj_get dataQuery ''vnp_Version'') @ ''|'' @ ''querydr'' @
     ''|'' @ tmnCode this @ ''|'' @ toString e (obj_get dataQuery ''vnp_TxnRef'') @ ''|'' @
     toString e (obj_get dataQuery ''vnp_TransactionDate'') @
     ''|'' @ toString e (obj_get dataQuery ''vnp_CreateDate'') @ ''|'' @
     toString e (obj_get dataQuery ''vnp_IpAddr'') @ ''|'' @
     toString e (obj_get dataQuery ''vnp_OrderInfo'')"

text \<open>
  The request: everything up to \<^verbatim>\<open>await response.json()\<close>. The result is the parsed
  response body, or the error thrown on the way.
\<close>

definition queryDr_fetch :: "env \<Rightarrow> VNPay \<Rightarrow> obj \<Rightarrow> js_error + obj" where
  "queryDr_fetch e this query =
     (let command = ''querydr'';
          dataQuery = queryDr_dataQuery e this query
      in case URL_new e (resolveUrlString e (host_or_sandbox e this) (QUERY_DR_REFUND_ENDPOINT e)) of
           None \<Rightarrow> Inl (TypeError ''Invalid URL'')
         | Some u \<Rightarrow>
            (let signed = hash e (secureSecret this) (queryDr_stringToCheckSum e this dataQuery)
                            (HASH_ALGORITHM this);
                 body = obj_assign dataQuery
                          [(''vnp_Command'', JStr command),
                           (''vnp_TmnCode'', JStr (tmnCode this)),
                           (''vnp_SecureHash'', JStr signed)]
             in case fetch e (url_toString u) body of
                  Inl err \<Rightarrow> Inl err
                | Inr response \<Rightarrow>
                   (if \<not> ok response
                    then Inl (Error (''HTTP error! status: '' @ numberToString e (status response)))
                    else json response)))"

definition queryDr_stringToCheckSumResponse :: "env \<Rightarrow> VNPay \<Rightarrow> obj \<Rightarrow> string" where
  "queryDr_stringToCheckSumResponse e this responseData =
     remove_undefined
      (toString e (obj_get responseData ''vnp_ResponseId'') @ ''|'' @
       toString e (obj_get responseData ''vnp_Command'') @ ''|'' @
       toString e (obj_get responseData ''vnp_ResponseCode'') @
       ''|'' @ toString e (obj_get responseData ''vnp_Message'') @ ''|'' @
       toString e (obj_get (defaultConfig this) ''vnp_TmnCode'') @ ''|'' @
       toString e (obj_get responseData ''vnp_TxnRef'') @
       ''|'' @ toString e (obj_get responseData ''vnp_Amount'') @ ''|'' @
       toString e (obj_get responseData ''vnp_BankCode'') @ ''|'' @
       toString e (obj_get responseData ''vnp_PayDate'') @
       ''|'' @ toString e (obj_get responseData ''vnp_TransactionNo'') @ ''|'' @
       toString e (obj_get responseData ''vnp_TransactionType'') @ ''|'' @
       toString e (obj_get responseData ''vnp_TransactionStatus'') @
       ''|'' @ toString e (obj_get responseData ''vnp_OrderInfo'') @ ''|'' @
       toString e (obj_get responseData ''vnp_PromotionCode'') @ ''|'' @
       toString e (obj_get responseData ''vnp_PromotionAmount''))"

text \<open>What the function does with the parsed response body.\<close>

definition queryDr_response :: "env \<Rightarrow> VNPay \<Rightarrow> obj \<Rightarrow> js_error + obj" where
  "queryDr_response e this responseData =
     (if in_soft_range (ToNumber e (obj_get responseData ''vnp_ResponseCode''))
      then Inr (obj_assign responseData
                 [(''vnp_Message'', JStr (getResponseByStatusCode e
                     (opt_toString e (obj_get responseData ''vnp_ResponseCode''))
                     (vnp_Locale this) QUERY_DR_RESPONSE_MAP))])
      else
       (let signedResponse = hash e (secureSecret this)
              (queryDr_stringToCheckSumResponse e this responseData) (HASH_ALGORITHM this)
        in if JStr signedResponse \<noteq> obj_get responseData ''vnp_SecureHash''
           then Inl (Error ''Wrong checksum from VNPay response'')
           else Inr (obj_assign responseData
                 [(''vnp_Message'', JStr (getResponseByStatusCode e
                     (opt_toString e (obj_get responseData ''vnp_ResponseCode''))
                     (vnp_Locale this) QUERY_DR_RESPONSE_MAP))])))"

definition queryDr :: "env \<Rightarrow> VNPay \<Rightarrow> obj \<Rightarrow> js_error + obj" where
  "queryDr e this query =
     (case queryDr_fetch e this query of
        Inl err \<Rightarrow> Inl err
      | Inr responseData \<Rightarrow> queryDr_response e this responseData)"

subsection \<open>refund\<close>

definition refund_dataQuery :: "VNPay \<Rightarrow> obj \<Rightarrow> obj" where
  "refund_dataQuery this data =
     obj_assign data
       [(''vnp_Command'', JStr ''refund''),
        (''vnp_Version'', opt_str (vnp_Version this)),
        (''vnp_TmnCode'', JStr (tmnCode this))]"

definition refund_stringToSigned :: "env \<Rightarrow> obj \<Rightarrow> string" where
  "refund_stringToSigned e dataQuery =
     toString e (obj_get dataQuery ''vnp_RequestId'') @ ''|'' @
     toString e (obj_get dataQuery ''vnp_Version'') @ ''|'' @ ''refund'' @ ''|'' @
     toString e (obj_get dataQuery ''vnp_TmnCode'') @ ''|'' @
     toString e (obj_get dataQuery ''vnp_TransactionType'') @ ''|'' @
     toString e (obj_get dataQuery ''vnp_TxnRef'') @ ''|'' @
     toString e (obj_get dataQuery ''vnp_Amount'') @ ''|'' @
     toString e (obj_get dataQuery ''vnp_TransactionNo'') @ ''|'' @
     toString e (obj_get dataQuery ''vnp_TransactionDate'') @ ''|'' @
     toString e (obj_get dataQuery ''vnp_CreateBy'') @ ''|'' @
     toString e (obj_get dataQuery ''vnp_CreateDate'') @ ''|'' @
     toString e (obj_get dataQuery ''vnp_IpAddr'') @ ''|'' @
     toString e (obj_get dataQuery ''vnp_OrderInfo'')"

definition refund_fetch :: "env \<Rightarrow> VNPay \<Rightarrow> obj \<Rightarrow> js_error + obj" where
  "refund_fetch e this data =
     (let dataQuery = refund_dataQuery this data
      in case URL_new e (resolveUrlString e (host_or_sandbox e this) (QUERY_DR_REFUND_ENDPOINT e)) of
           None \<Rightarrow> Inl (TypeError ''Invalid URL'')
         | Some u \<Rightarrow>
            (let signed = hash e (secureSecret this) (refund_stringToSigned e dataQuery)
                            (HASH_ALGORITHM this);
                 body = obj_assign dataQuery [(''vnp_SecureHash'', JStr signed)]
             in case fetch e (url_toString u) body of
                  Inl err \<Rightarrow> Inl err
                | Inr response \<Rightarrow>
                   (if \<not> ok response
                    then Inl (Error (''HTTP error! status: '' @ numberToString e (status response)))
                    else json response)))"

definition refund_stringToChecksumResponse :: "env \<Rightarrow> obj \<Rightarrow> string" where
  "refund_stringToChecksumResponse e responseData =
     toString e (obj_get responseData ''vnp_ResponseId'') @ ''|'' @ ''refund'' @ ''|'' @
     toString e (obj_get responseData ''vnp_ResponseCode'') @ ''|'' @
     toString e (obj_get responseData ''vnp_Message'') @ ''|'' @
     toString e (obj_get responseData ''vnp_TmnCode'') @ ''|'' @
     toString e (obj_get responseData ''vnp_TxnRef'') @ ''|'' @
     toString e (obj_get responseData ''vnp_Amount'') @ ''|'' @
     toString e (obj_get responseData ''vnp_BankCode'') @ ''|'' @
     toString e (obj_get responseData ''vnp_PayDate'') @ ''|'' @
     toString e (obj_get responseData ''vnp_TransactionNo'') @ ''|'' @
     toString e (obj_get responseData ''vnp_TransactionType'') @ ''|'' @
     toString e (obj_get responseData ''vnp_TransactionStatus'') @ ''|'' @
     toString e (obj_get responseData ''vnp_OrderInfo'')"

definition refund_response :: "env \<Rightarrow> VNPay \<Rightarrow> obj \<Rightarrow> js_error + obj" where
  "refund_response e this responseData =
     (if in_soft_range (ToNumber e (obj_get responseData ''vnp_ResponseCode''))
      then Inr (obj_assign responseData
                 [(''vnp_Message'', JStr (getResponseByStatusCode e
                     (opt_toString e (obj_get responseData ''vnp_ResponseCode''))
                     (vnp_Locale this) QUERY_DR_RESPONSE_MAP))])
      else
       (let signedResponse = hash e (secureSecret this)
              (refund_stringToChecksumResponse e responseData) (HASH_ALGORITHM this)
        in if JStr signedResponse \<noteq> obj_get responseData ''vnp_SecureHash''
           then Inl (Error ''Wrong checksum from VNPay response'')
           else Inr (obj_assign responseData
                 [(''vnp_Message'', JStr (getResponseByStatusCode e
                     (opt_toString e (obj_get responseData ''vnp_ResponseCode''))
                     (vnp_Locale this) REFUND_RESPONSE_MAP))])))"

definition refund :: "env \<Rightarrow> VNPay \<Rightarrow> obj \<Rightarrow> js_error + obj" where
  "refund e this data =
     (case refund_fetch e this data of
        Inl err \<Rightarrow> Inl err
      | Inr responseData \<Rightarrow> refund_response e this responseData)"

section \<open>Notions used in the statements\<close>

text \<open>
  A comparator is consistent when the relation \<open>cmp a b \<le> 0\<close> is total and transitive;
  \<^verbatim>\<open>sort\<close> promises a sorted result for such comparators only.
\<close>

definition consistent_comparator :: "(string \<Rightarrow> string \<Rightarrow> int) \<Rightarrow> bool" where
  "consistent_comparator cmp =
     ((\<forall>a b. cmp a b \<le> 0 \<or> cmp b a \<le> 0) \<and>
      (\<forall>a b c. cmp a b \<le> 0 \<longrightarrow> cmp b c \<le> 0 \<longrightarrow> cmp a c \<le> 0))"

text \<open>The entries a \<^verbatim>\<open>forEach\<close> skips: the test of each of the two functions.\<close>

definition build_skips :: "jsval \<Rightarrow> bool" where
  "build_skips v = (\<not> truthy v \<or> v = JStr [] \<or> v = JUndefined \<or> v = JNull)"

definition verify_skips :: "jsval \<Rightarrow> bool" where
  "verify_skips v = (v = JStr [] \<or> v = JUndefined \<or> v = JNull)"

text \<open>
  Reading a callback from a payment URL: the query string of the URL (between the first
  \<open>?\<close> and the fragment) is parsed into pairs, and the pairs become the properties of an
  object, each value a string.
\<close>

definition href_query :: "string \<Rightarrow> string" where
  "href_query s =
     takeWhile (\<lambda>c. c \<noteq> CHR ''#'') (drop 1 (dropWhile (\<lambda>c. c \<noteq> CHR ''?'') s))"

definition as_strings :: "(string \<times> string) list \<Rightarrow> obj" where
  "as_strings ps = map (\<lambda>(k, v). (k, JStr v)) ps"

definition parseQuery :: "string \<Rightarrow> obj" where
  "parseQuery href = obj_assign [] (as_strings (parse_urlencoded (href_query href)))"

text \<open>
  The response strings as the specification words them: the listed fields, each read from
  the response, joined with \<open>|\<close>.
\<close>

definition spec_queryDr_fields :: "string list" where
  "spec_queryDr_fields =
     [''vnp_ResponseId'', ''vnp_Command'', ''vnp_ResponseCode'', ''vnp_Message'',
      ''vnp_TmnCode'', ''vnp_TxnRef'', ''vnp_Amount'', ''vnp_BankCode'', ''vnp_PayDate'',
      ''vnp_TransactionNo'', ''vnp_TransactionType'', ''vnp_TransactionStatus'',
      ''vnp_OrderInfo'', ''vnp_PromotionCode'', ''vnp_PromotionAmount'']"

definition spec_refund_fields :: "string list" where
  "spec_refund_fields =
     [''vnp_ResponseId'', ''vnp_Command'', ''vnp_ResponseCode'', ''vnp_Message'',
      ''vnp_TmnCode'', ''vnp_TxnRef'', ''vnp_Amount'', ''vnp_BankCode'', ''vnp_PayDate'',
      ''vnp_TransactionNo'', ''vnp_TransactionType'', ''vnp_TransactionStatus'',
      ''vnp_OrderInfo'']"

definition spec_pipe :: "env \<Rightarrow> obj \<Rightarrow> string list \<Rightarrow> string" where
  "spec_pipe e responseData names = join ''|'' (map (\<lambda>k. toString e (obj_get responseData k)) names)"

text \<open>The bytes that delimit a query string and its pairs.\<close>

definition query_safe :: "char \<Rightarrow> bool" where
  "query_safe c = (c \<noteq> CHR ''&'' \<and> c \<noteq> CHR ''='' \<and> c \<noteq> CHR ''#'' \<and> c \<noteq> CHR ''?'')"

section \<open>An environment for the examples\<close>

text \<open>
  The examples below run the functions in a small concrete environment. Its collation
  follows the root collation on names over letters, digits and \<open>_\<close>: names are compared
  letter by letter without regard to case (\<open>_\<close> before digits before letters), and names
  that differ in case only have the lower-case letter first. Its number conversions are
  those of JavaScript on integers written in decimal and on \<open>NaN\<close>; the examples use no
  other number and no other string as a number, and for those the two conversions answer
  \<open>NaN\<close>. Its digest is a stand-in that keeps the key, the algorithm and the payload
  readable. Its \<^verbatim>\<open>new URL\<close> accepts a non-empty string without query and fragment as it is.
\<close>

definition collation_primary :: "char \<Rightarrow> int" where
  "collation_primary c = (let n = (of_char c :: int) in
     if n = 95 then 0
     else if 48 \<le> n \<and> n \<le> 57 then n - 47
     else if 65 \<le> n \<and> n \<le> 90 then n - 54
     else if 97 \<le> n \<and> n \<le> 122 then n - 86
     else 37 + n)"

definition collation_tertiary :: "char \<Rightarrow> int" where
  "collation_tertiary c = (let n = (of_char c :: int) in if 65 \<le> n \<and> n \<le> 90 then 1 else 0)"

definition collation_key :: "string \<Rightarrow> int list \<times> int list" where
  "collation_key s = (map collation_primary s, map collation_tertiary s)"

definition example_localeCompare :: "string \<Rightarrow> string \<Rightarrow> int" where
  "example_localeCompare a b =
     (if collation_key a < collation_key b then - 1
      else if collation_key b < collation_key a then 1 else 0)"

function show_dec :: "int \<Rightarrow> string" where
  "show_dec n = (if n < 10 then [char_of (48 + n)] else show_dec (n div 10) @ [char_of (48 + n mod 10)])"
  by pat_completeness auto
termination
  by (relation "measure nat") auto

definition example_numberToString :: "jsnum \<Rightarrow> string" where
  "example_numberToString n = (case n of
      NaN \<Rightarrow> ''NaN''
    | Num r \<Rightarrow>
        (if r = of_int \<lfloor>r\<rfloor>
         then (if r < 0 then ''-'' @ show_dec (- \<lfloor>r\<rfloor>) else show_dec \<lfloor>r\<rfloor>)
         else ''NaN''))"

definition example_stringToNumber :: "string \<Rightarrow> jsnum" where
  "example_stringToNumber s =
     (if \<forall>c \<in> set s. 48 \<le> (of_char c :: nat) \<and> (of_char c :: nat) \<le> 57
      then Num (foldl (\<lambda>a c. 10 * a + of_nat ((of_char c :: nat) - 48)) 0 s)
      else NaN)"

definition example_hash :: "string \<Rightarrow> string \<Rightarrow> string \<Rightarrow> string" where
  "example_hash secret payload algorithm = algorithm @ '':'' @ secret @ '':'' @ payload"

definition example_URL_new :: "string \<Rightarrow> url option" where
  "example_URL_new s =
     (if s = [] \<or> CHR ''?'' \<in> set s \<or> CHR ''#'' \<in> set s then None
      else Some \<lparr>url_base = s, url_searchParams = [], url_fragment = []\<rparr>)"

definition example_env :: env where
  "example_env =
     \<lparr>VNPAY_GATEWAY_SANDBOX_HOST = ''https://sandbox.vnpayment.vn'',
      PAYMENT_ENDPOINT = ''paymentv2/vpcpay.html'',
      VNP_VERSION = ''2.1.0'',
      QUERY_DR_REFUND_ENDPOINT = ''merchant_webapi/api/transaction'',
      hash = example_hash,
      getResponseByStatusCode = (\<lambda>code locale table. ''message '' @ (case code of None \<Rightarrow> [] | Some c \<Rightarrow> c)),
      isValidVnpayDateFormat = (\<lambda>v. case v of JStr s \<Rightarrow> length s = 14 | _ \<Rightarrow> False),
      resolveUrlString = (\<lambda>host path. host @ ''/'' @ path),
      dateFormat_now = JStr ''20240102030405'',
      localeCompare = example_localeCompare,
      stringToNumber = example_stringToNumber,
      numberToString = example_numberToString,
      URL_new = example_URL_new,
      fetch = (\<lambda>u body. Inl (Error ''fetch failed''))\<rparr>"

text \<open>The same environment with a gateway that answers every request with the body \<open>r\<close>.\<close>

definition example_env_answering :: "obj \<Rightarrow> env" where
  "example_env_answering r =
     example_env\<lparr>fetch := (\<lambda>u body. Inr \<lparr>ok = True, status = Num 200, json = Inr r\<rparr>)\<rparr>"

definition example_this :: VNPay where
  "example_this =
     \<lparr>vnpayHost = Some ''https://sandbox.vnpayment.vn'',
      paymentEndpoint = Some ''paymentv2/vpcpay.html'',
      tmnCode = ''TMNCODE'',
      secureSecret = ''SECRET'',
      vnp_Version = Some ''2.1.0'',
      vnp_CurrCode = ''VND'',
      vnp_Locale = ''vn'',
      vnp_Command = ''pay'',
      vnp_OrderType = ''other'',
      HASH_ALGORITHM = ''SHA512''\<rparr>"

text \<open>A status query, a refund request and gateway answers for the examples.\<close>

definition example_query :: obj where
  "example_query =
     [(''vnp_RequestId'', JStr ''req1''), (''vnp_TxnRef'', JStr ''12345678''),
      (''vnp_TransactionDate'', JStr ''20240101120000''),
      (''vnp_CreateDate'', JStr ''20240102030405''),
      (''vnp_IpAddr'', JStr ''192.168.0.1''), (''vnp_OrderInfo'', JStr ''query'')]"

definition example_refund_data :: obj where
  "example_refund_data =
     [(''vnp_RequestId'', JStr ''req2''), (''vnp_TransactionType'', JStr ''02''),
      (''vnp_TxnRef'', JStr ''12345678''), (''vnp_Amount'', JNum (Num 10000000)),
      (''vnp_TransactionNo'', JStr ''14226112''),
      (''vnp_TransactionDate'', JStr ''20240101120000''), (''vnp_CreateBy'', JStr ''admin''),
      (''vnp_CreateDate'', JStr ''20240102030405''),
      (''vnp_IpAddr'', JStr ''192.168.0.1''), (''vnp_OrderInfo'', JStr ''refund'')]"

definition example_response_91 :: obj where
  "example_response_91 =
     [(''vnp_ResponseId'', JStr ''res1''), (''vnp_Command'', JStr ''querydr''),
      (''vnp_ResponseCode'', JStr ''91''), (''vnp_Message'', JStr ''not found'')]"

definition example_response_00 :: obj where
  "example_response_00 =
     [(''vnp_ResponseId'', JStr ''res1''), (''vnp_Command'', JStr ''querydr''),
      (''vnp_ResponseCode'', JStr ''00''), (''vnp_Message'', JStr ''OK''),
      (''vnp_TmnCode'', JStr ''TMNCODE''), (''vnp_TxnRef'', JStr ''12345678''),
      (''vnp_Amount'', JStr ''10000000''), (''vnp_BankCode'', JStr ''NCB''),
      (''vnp_PayDate'', JStr ''20240101120500''), (''vnp_TransactionNo'', JStr ''14226112''),
      (''vnp_TransactionType'', JStr ''01''), (''vnp_TransactionStatus'', JStr ''00''),
      (''vnp_OrderInfo'', JStr ''order'')]"

section \<open>Sorting: basic facts\<close>

lemma set_insert_by: "set (insert_by cmp x xs) = insert x (set xs)"
  by (induction xs) auto

lemma mset_insert_by: "mset (insert_by cmp x xs) = add_mset x (mset xs)"
  by (induction xs) auto

lemma mset_sort_by: "mset (sort_by cmp xs) = mset xs"
  by (induction xs) (auto simp: sort_by_def mset_insert_by)

lemma set_sort_by: "set (sort_by cmp xs) = set xs"
  by (induction xs) (auto simp: sort_by_def set_insert_by)

lemma sorted_insert_by:
  assumes tot: "\<And>a b. cmp a b \<le> 0 \<or> cmp b a \<le> 0"
      and tr: "\<And>a b c. cmp a b \<le> 0 \<Longrightarrow> cmp b c \<le> 0 \<Longrightarrow> cmp a c \<le> 0"
  shows "sorted_wrt (\<lambda>a b. cmp a b \<le> 0) xs \<Longrightarrow> sorted_wrt (\<lambda>a b. cmp a b \<le> 0) (insert_by cmp x xs)"
proof (induction xs)
  case Nil
  then show ?case by simp
next
  case (Cons y ys)
  show ?case
  proof (cases "cmp x y \<le> 0")
    case True
    with Cons.prems tr show ?thesis by auto
  next
    case False
    with tot have "cmp y x \<le> 0" by blast
    with False Cons show ?thesis by (auto simp: set_insert_by)
  qed
qed

lemma sorted_sort_by:
  assumes tot: "\<And>a b. cmp a b \<le> 0 \<or> cmp b a \<le> 0"
      and tr: "\<And>a b c. cmp a b \<le> 0 \<Longrightarrow> cmp b c \<le> 0 \<Longrightarrow> cmp a c \<le> 0"
  shows "sorted_wrt (\<lambda>a b. cmp a b \<le> 0) (sort_by cmp xs)"
proof (induction xs)
  case Nil
  show ?case by (simp add: sort_by_def)
next
  case (Cons x xs)
  have "sort_by cmp (x # xs) = insert_by cmp x (sort_by cmp xs)" by (simp add: sort_by_def)
  with Cons sorted_insert_by[of cmp, OF tot tr] show ?case by simp
qed

lemma insert_by_sorted: "\<forall>y \<in> set xs. cmp x y \<le> 0 \<Longrightarrow> insert_by cmp x xs = x # xs"
  by (cases xs) auto

lemma sort_by_sorted: "sorted_wrt (\<lambda>a b. cmp a b \<le> 0) xs \<Longrightarrow> sort_by cmp xs = xs"
proof (induction xs)
  case Nil
  show ?case by (simp add: sort_by_def)
next
  case (Cons x xs)
  then have "sort_by cmp xs = xs" by simp
  moreover have "sort_by cmp (x # xs) = insert_by cmp x (sort_by cmp xs)" by (simp add: sort_by_def)
  ultimately show ?case using Cons.prems by (simp add: insert_by_sorted)
qed

lemma fold_verify_append:
  "fold (verify_append e) xs sp = sp @ map (\<lambda>p. (fst p, toString e (snd p))) (filter (\<lambda>p. \<not> verify_skips (snd p)) xs)"
  by (induction xs arbitrary: sp) (auto simp: verify_append_def verify_skips_def)

lemma fold_build_append:
  "fold (build_append e) xs sp = sp @ map (\<lambda>p. (fst p, toString e (snd p))) (filter (\<lambda>p. \<not> build_skips (snd p)) xs)"
  by (induction xs arbitrary: sp) (auto simp: build_append_def build_skips_def)

section \<open>The query serializer and its parser\<close>

lemma of_char_hex_digit:
  "n < 16 \<Longrightarrow> (of_char (hex_digit n) :: nat) = (if n < 10 then 48 + n else 55 + n)"
  by (simp add: hex_digit_def)

lemma hex_val_hex_digit: "n < 16 \<Longrightarrow> hex_val (hex_digit n) = Some n"
  by (simp add: hex_val_def of_char_hex_digit Let_def)

lemma char_of_div_mod: "char_of (16 * ((of_char c :: nat) div 16) + (of_char c :: nat) mod 16) = c"
  by simp

lemma of_char_lt_256: "(of_char c :: nat) < 256"
  by simp

lemma percent_decode_encode_byte:
  "percent_decode (encode_byte c @ rest) = c # percent_decode rest"
proof (cases "c = CHR '' ''")
  case True
  then show ?thesis by (simp add: encode_byte_def)
next
  case False
  show ?thesis
  proof (cases "unreserved c")
    case True
    then have "c \<noteq> CHR ''%''" "c \<noteq> CHR ''+''" by (auto simp: unreserved_def)
    with True False show ?thesis by (simp add: encode_byte_def)
  next
    case u: False
    have "(of_char c :: nat) div 16 < 16" using of_char_lt_256[of c] by (simp add: less_mult_imp_div_less)
    moreover have "(of_char c :: nat) mod 16 < 16" by simp
    ultimately show ?thesis using False u
      by (simp add: encode_byte_def hex_val_hex_digit)
  qed
qed

lemma percent_decode_urlencode_append:
  "percent_decode (urlencode s @ rest) = s @ percent_decode rest"
  by (induction s) (simp_all add: urlencode_def percent_decode_encode_byte)

lemma percent_decode_urlencode: "percent_decode (urlencode s) = s"
  using percent_decode_urlencode_append[of s "[]"] by simp

lemma hex_digit_safe: "n < 16 \<Longrightarrow> query_safe (hex_digit n)"
proof -
  assume n: "n < 16"
  have "\<And>d. (of_char (hex_digit n) :: nat) \<noteq> of_char d \<Longrightarrow> hex_digit n \<noteq> d" by auto
  then show ?thesis using n unfolding query_safe_def
    by (auto simp: of_char_hex_digit split: if_splits)
qed

lemma encode_byte_safe: "x \<in> set (encode_byte c) \<Longrightarrow> query_safe x"
proof -
  assume x: "x \<in> set (encode_byte c)"
  have d: "(of_char c :: nat) div 16 < 16" using of_char_lt_256[of c] by (simp add: less_mult_imp_div_less)
  have m: "(of_char c :: nat) mod 16 < 16" by simp
  have u: "unreserved c \<Longrightarrow> query_safe c" by (auto simp: unreserved_def query_safe_def)
  have p: "query_safe CHR ''%''" "query_safe CHR ''+''" by (simp_all add: query_safe_def)
  show ?thesis using x u p hex_digit_safe[OF d] hex_digit_safe[OF m]
    by (auto simp: encode_byte_def split: if_splits)
qed

lemma urlencode_safe: "x \<in> set (urlencode s) \<Longrightarrow> query_safe x"
  by (auto simp: urlencode_def dest: encode_byte_safe)

lemma split_on_no_sep: "sep \<notin> set p \<Longrightarrow> split_on sep p = [p]"
  by (induction p) auto

lemma split_on_append: "sep \<notin> set p \<Longrightarrow> split_on sep (p @ sep # rest) = p # split_on sep rest"
  by (induction p) auto

lemma split_on_join_aux:
  "ps \<noteq> [] \<Longrightarrow> \<forall>p \<in> set ps. sep \<notin> set p \<Longrightarrow> s = [sep] \<Longrightarrow> split_on sep (join s ps) = ps"
proof (induction s ps rule: join.induct)
  case (1 s)
  then show ?case by simp
next
  case (2 s x)
  then show ?case by (simp add: split_on_no_sep)
next
  case (3 s x y ys)
  then show ?case by (simp add: split_on_append)
qed

lemma split_on_join:
  "ps \<noteq> [] \<Longrightarrow> \<forall>p \<in> set ps. sep \<notin> set p \<Longrightarrow> split_on sep (join [sep] ps) = ps"
  by (rule split_on_join_aux) simp_all

lemma pair_piece_no_amp:
  "CHR ''&'' \<notin> set (urlencode k @ ''='' @ urlencode v)"
  using urlencode_safe[of "CHR ''&''"] by (auto simp: query_safe_def)

lemma parse_pair_encoded: "parse_pair (urlencode k @ CHR ''='' # urlencode v) = (k, v)"
proof -
  have k: "\<forall>x \<in> set (urlencode k). x \<noteq> CHR ''=''"
    using urlencode_safe[of _ k] by (auto simp: query_safe_def)
  have t: "takeWhile (\<lambda>c. c \<noteq> CHR ''='') (urlencode k @ CHR ''='' # urlencode v) = urlencode k"
    using k by (simp add: takeWhile_append2[of "urlencode k"]) 
  have d: "dropWhile (\<lambda>c. c \<noteq> CHR ''='') (urlencode k @ CHR ''='' # urlencode v) = CHR ''='' # urlencode v"
    using k by (simp add: dropWhile_append2[of "urlencode k"])
  show ?thesis unfolding parse_pair_def t d by (simp add: percent_decode_urlencode)
qed

lemma parse_urlencoded_serialize: "parse_urlencoded (serialize ps) = ps"
proof (cases "ps = []")
  case True
  then show ?thesis by (simp add: parse_urlencoded_def serialize_def)
next
  case False
  let ?pieces = "map (\<lambda>(k, v). urlencode k @ ''='' @ urlencode v) ps"
  have ne: "?pieces \<noteq> []" using False by simp
  have amp: "\<forall>p \<in> set ?pieces. CHR ''&'' \<notin> set p"
    using pair_piece_no_amp by auto
  have s: "split_on CHR ''&'' (serialize ps) = ?pieces"
    unfolding serialize_def using split_on_join[OF ne amp] by simp
  have f: "filter (\<lambda>p. p \<noteq> []) ?pieces = ?pieces"
    by (auto simp: filter_id_conv)
  have m: "map parse_pair ?pieces = ps"
    by (induction ps) (auto simp: parse_pair_encoded)
  show ?thesis unfolding parse_urlencoded_def s f m ..
qed

lemma join_safe:
  "\<forall>p \<in> set ps. \<forall>x \<in> set p. query_char x \<Longrightarrow> \<forall>x \<in> set sep. query_char x \<Longrightarrow> x \<in> set (join sep ps) \<Longrightarrow> query_char x"
  by (induction sep ps rule: join.induct) auto

lemma serialize_no_hash: "CHR ''#'' \<notin> set (serialize ps)"
proof
  assume a: "CHR ''#'' \<in> set (serialize ps)"
  have "\<forall>p \<in> set (map (\<lambda>(k, v). urlencode k @ ''='' @ urlencode v) ps). \<forall>x \<in> set p. x \<noteq> CHR ''#''"
    using urlencode_safe by (auto simp: query_safe_def)
  from join_safe[where query_char = "\<lambda>x. x \<noteq> CHR ''#''", OF this _ a[unfolded serialize_def]]
  show False by simp
qed

lemma join_empty: "join sep ps = [] \<Longrightarrow> \<forall>p \<in> set ps. p = []"
  by (induction sep ps rule: join.induct) auto

lemma serialize_empty: "serialize ps = [] \<longleftrightarrow> ps = []"
proof
  assume "serialize ps = []"
  from join_empty[OF this[unfolded serialize_def]] show "ps = []" by (cases ps) auto
qed (simp add: serialize_def)

lemma href_query_url:
  assumes "CHR ''?'' \<notin> set base" "frag = [] \<or> hd frag = CHR ''#''" "CHR ''#'' \<notin> set q"
  shows "href_query (base @ CHR ''?'' # q @ frag) = q"
proof -
  have b: "\<forall>x \<in> set base. x \<noteq> CHR ''?''" using assms(1) by auto
  have d: "dropWhile (\<lambda>c. c \<noteq> CHR ''?'') (base @ CHR ''?'' # q @ frag) = CHR ''?'' # q @ frag"
    using b by (simp add: dropWhile_append2[of base])
  have h: "\<forall>x \<in> set q. x \<noteq> CHR ''#''" using assms(3) by auto
  have t: "takeWhile (\<lambda>c. c \<noteq> CHR ''#'') (q @ frag) = q"
    using assms(2) h by (cases frag) (simp_all add: takeWhile_append2[of q])
  show ?thesis unfolding href_query_def d using t by simp
qed

section \<open>Objects: reading after writing\<close>

lemma obj_assign_Nil: "obj_assign a [] = a"
  by (simp add: obj_assign_def)

lemma obj_assign_Cons: "obj_assign a ((k, v) # b) = obj_assign (AList.update k v a) b"
  by (simp add: obj_assign_def)

lemma map_of_obj_assign: "map_of (obj_assign a b) = map_of a ++ map_of (rev b)"
proof (induction b arbitrary: a)
  case Nil
  show ?case by (simp add: obj_assign_def)
next
  case (Cons p b)
  obtain k v where p: "p = (k, v)" by (cases p)
  have "obj_assign a (p # b) = obj_assign (AList.update k v a) b"
    by (simp add: obj_assign_def p)
  then show ?case using Cons[of "AList.update k v a"]
    by (auto simp: p update_conv' fun_eq_iff map_add_def split: option.splits)
qed

lemma obj_get_assign:
  "obj_get (obj_assign a b) k = (case map_of (rev b) k of None \<Rightarrow> obj_get a k | Some v \<Rightarrow> v)"
  by (simp add: obj_get_def map_of_obj_assign map_add_def split: option.splits)

lemma obj_get_set: "obj_get (obj_set ob k v) k' = (if k' = k then v else obj_get ob k')"
  by (simp add: obj_get_def obj_set_def update_conv')

lemma obj_get_update: "obj_get (AList.update k v ob) k' = (if k' = k then v else obj_get ob k')"
  by (simp add: obj_get_def update_conv')

lemma obj_get_delete:
  "obj_get (AList.delete k ob) k' = (if k' = k then JUndefined else obj_get ob k')"
  by (simp add: obj_get_def delete_conv')

lemmas obj_get_simps = obj_get_set obj_get_update obj_get_delete obj_get_assign obj_assign_Nil obj_assign_Cons

lemma delete_filter: "AList.delete k ob = filter (\<lambda>p. fst p \<noteq> k) ob"
  by (induction ob) auto

lemma verifyReturnUrl_query_filter:
  "verifyReturnUrl_query query = filter (\<lambda>p. fst p \<noteq> ''vnp_SecureHash'' \<and> fst p \<noteq> ''vnp_SecureHashType'') query"
  by (auto simp: verifyReturnUrl_query_def delete_filter intro: filter_cong)

lemma verifyReturnUrl_query_set_hash:
  "verifyReturnUrl_query (obj_set query ''vnp_SecureHash'' h) = verifyReturnUrl_query query"
  by (simp add: verifyReturnUrl_query_def obj_set_def delete_update_same)

lemma verifyReturnUrl_query_set_type:
  "verifyReturnUrl_query (obj_set query ''vnp_SecureHashType'' t) = verifyReturnUrl_query query"
  by (simp add: verifyReturnUrl_query_def obj_set_def delete_update_same delete_update)

lemma verifyReturnUrl_query_delete_type:
  "verifyReturnUrl_query (AList.delete ''vnp_SecureHashType'' query) = verifyReturnUrl_query query"
  by (simp add: verifyReturnUrl_query_def delete_twist[of "''vnp_SecureHash''"] delete_idem)

lemma verifyReturnUrl_signed_cong:
  "verifyReturnUrl_query q1 = verifyReturnUrl_query q2 \<Longrightarrow>
   verifyReturnUrl_signed e this q1 = verifyReturnUrl_signed e this q2"
  by (simp add: verifyReturnUrl_signed_def verifyReturnUrl_searchParams_def)

lemma verifyReturnUrl_cong:
  "verifyReturnUrl_query q1 = verifyReturnUrl_query q2 \<Longrightarrow>
   (obj_get q1 ''vnp_SecureHash'' = JStr (verifyReturnUrl_signed e this q1)) =
   (obj_get q2 ''vnp_SecureHash'' = JStr (verifyReturnUrl_signed e this q2)) \<Longrightarrow>
   verifyReturnUrl e this q1 = verifyReturnUrl e this q2"
  using verifyReturnUrl_signed_cong[of q1 q2 e this]
  by (simp add: verifyReturnUrl_def Let_def)

lemma verifyReturnUrl_isVerified:
  "obj_get (fst (verifyReturnUrl e this query)) ''isVerified'' =
     JBool (obj_get query ''vnp_SecureHash'' = JStr (verifyReturnUrl_signed e this query))"
  by (simp add: verifyReturnUrl_def Let_def obj_get_simps)

lemma verifyReturnUrl_message_wrong:
  "obj_get query ''vnp_SecureHash'' \<noteq> JStr (verifyReturnUrl_signed e this query) \<Longrightarrow>
   obj_get (fst (verifyReturnUrl e this query)) ''message'' = JStr ''Wrong checksum''"
  by (simp add: verifyReturnUrl_def Let_def obj_get_simps)

lemma verifyReturnUrl_other_fields:
  "k \<notin> {''vnp_SecureHash'', ''vnp_SecureHashType'', ''vnp_Amount'', ''isVerified'', ''isSuccess'', ''message''} \<Longrightarrow>
   obj_get (fst (verifyReturnUrl e this query)) k = obj_get query k"
  by (simp add: verifyReturnUrl_def Let_def obj_get_simps verifyReturnUrl_query_def)

lemma verifyReturnUrl_hash_fields_gone:
  "obj_get (fst (verifyReturnUrl e this query)) ''vnp_SecureHash'' = JUndefined \<and>
   obj_get (fst (verifyReturnUrl e this query)) ''vnp_SecureHashType'' = JUndefined"
  by (simp add: verifyReturnUrl_def Let_def obj_get_simps verifyReturnUrl_query_def)

lemma verifyReturnUrl_amount:
  "obj_get (fst (verifyReturnUrl e this query)) ''vnp_Amount'' =
     JNum (num_div (ToNumber e (obj_get query ''vnp_Amount'')) (Num 100))"
  by (simp add: verifyReturnUrl_def Let_def obj_get_simps verifyReturnUrl_query_def)

section \<open>verifyReturnUrl: a wrong checksum\<close>

text \<open>
  Claim C3, as the code has it. When the recomputed signature differs from the supplied
  \<^verbatim>\<open>vnp_SecureHash\<close>, \<^verbatim>\<open>verifyReturnUrl\<close> returns a value (the function has no
  \<^verbatim>\<open>throw\<close>) whose \<^verbatim>\<open>isVerified\<close> is false and whose \<^verbatim>\<open>message\<close> is
  \<^verbatim>\<open>Wrong checksum\<close>. The returned object carries every property of the argument under
  its own name and value, except \<^verbatim>\<open>vnp_SecureHash\<close> and \<^verbatim>\<open>vnp_SecureHashType\<close>, which
  are absent from it, \<^verbatim>\<open>vnp_Amount\<close>, which is divided by 100, and properties named
  \<^verbatim>\<open>isVerified\<close>, \<^verbatim>\<open>isSuccess\<close> or \<^verbatim>\<open>message\<close>, which the verdict overwrites.
\<close>

theorem verifyReturnUrl_wrong_checksum:
  assumes "obj_get query ''vnp_SecureHash'' \<noteq> JStr (verifyReturnUrl_signed e this query)"
  shows "obj_get (fst (verifyReturnUrl e this query)) ''isVerified'' = JBool False \<and>
         obj_get (fst (verifyReturnUrl e this query)) ''message'' = JStr ''Wrong checksum'' \<and>
         obj_get (fst (verifyReturnUrl e this query)) ''vnp_SecureHash'' = JUndefined \<and>
         obj_get (fst (verifyReturnUrl e this query)) ''vnp_SecureHashType'' = JUndefined \<and>
         obj_get (fst (verifyReturnUrl e this query)) ''vnp_Amount'' =
           JNum (num_div (ToNumber e (obj_get query ''vnp_Amount'')) (Num 100)) \<and>
         (\<forall>k. k \<notin> {''vnp_SecureHash'', ''vnp_SecureHashType'', ''vnp_Amount'',
                    ''isVerified'', ''isSuccess'', ''message''} \<longrightarrow>
              obj_get (fst (verifyReturnUrl e this query)) k = obj_get query k)"
  using assms verifyReturnUrl_isVerified[of e this query] verifyReturnUrl_message_wrong[of query e this]
    verifyReturnUrl_hash_fields_gone[of e this query] verifyReturnUrl_amount[of e this query]
    verifyReturnUrl_other_fields[of _ e this query]
  by simp

text \<open>The statement at a callback whose signature is not the recomputed one.\<close>

theorem verifyReturnUrl_wrong_checksum_witness:
  "obj_get [(''vnp_Amount'', JStr ''1000000''), (''vnp_ResponseCode'', JStr ''00''),
            (''vnp_TxnRef'', JStr ''12345678''), (''vnp_SecureHash'', JStr ''deadbeef'')]
      ''vnp_SecureHash'' \<noteq>
     JStr (verifyReturnUrl_signed example_env example_this
       [(''vnp_Amount'', JStr ''1000000''), (''vnp_ResponseCode'', JStr ''00''),
        (''vnp_TxnRef'', JStr ''12345678''), (''vnp_SecureHash'', JStr ''deadbeef'')]) \<and>
   obj_get (fst (verifyReturnUrl example_env example_this
       [(''vnp_Amount'', JStr ''1000000''), (''vnp_ResponseCode'', JStr ''00''),
        (''vnp_TxnRef'', JStr ''12345678''), (''vnp_SecureHash'', JStr ''deadbeef'')])) ''isVerified'' = JBool False \<and>
   obj_get (fst (verifyReturnUrl example_env example_this
       [(''vnp_Amount'', JStr ''1000000''), (''vnp_ResponseCode'', JStr ''00''),
        (''vnp_TxnRef'', JStr ''12345678''), (''vnp_SecureHash'', JStr ''deadbeef'')])) ''message'' = JStr ''Wrong checksum'' \<and>
   obj_get (fst (verifyReturnUrl example_env example_this
       [(''vnp_Amount'', JStr ''1000000''), (''vnp_ResponseCode'', JStr ''00''),
        (''vnp_TxnRef'', JStr ''12345678''), (''vnp_SecureHash'', JStr ''deadbeef'')])) ''vnp_TxnRef'' = JStr ''12345678''"
proof -
  let ?q = "[(''vnp_Amount'', JStr ''1000000''), (''vnp_ResponseCode'', JStr ''00''),
            (''vnp_TxnRef'', JStr ''12345678''), (''vnp_SecureHash'', JStr ''deadbeef'')]"
  have h: "obj_get ?q ''vnp_SecureHash'' \<noteq> JStr (verifyReturnUrl_signed example_env example_this ?q)"
    by code_simp
  have k: "obj_get ?q ''vnp_TxnRef'' = JStr ''12345678''" by code_simp
  from verifyReturnUrl_wrong_checksum[OF h] h k show ?thesis by simp
qed

text \<open>
  Claim C3 as worded says the returned value still carries all the original fields. At this
  callback the supplied \<^verbatim>\<open>vnp_SecureHash\<close> is \<^verbatim>\<open>deadbeef\<close> and the result has no such
  property; the amount \<^verbatim>\<open>1000000\<close> comes back as the number 10000.
\<close>

theorem verifyReturnUrl_all_fields_counterexample:
  "obj_get [(''vnp_Amount'', JStr ''1000000''), (''vnp_ResponseCode'', JStr ''00''),
            (''vnp_TxnRef'', JStr ''12345678''), (''vnp_SecureHash'', JStr ''deadbeef'')]
      ''vnp_SecureHash'' \<noteq>
     JStr (verifyReturnUrl_signed example_env example_this
       [(''vnp_Amount'', JStr ''1000000''), (''vnp_ResponseCode'', JStr ''00''),
        (''vnp_TxnRef'', JStr ''12345678''), (''vnp_SecureHash'', JStr ''deadbeef'')]) \<and>
   obj_get (fst (verifyReturnUrl example_env example_this
       [(''vnp_Amount'', JStr ''1000000''), (''vnp_ResponseCode'', JStr ''00''),
        (''vnp_TxnRef'', JStr ''12345678''), (''vnp_SecureHash'', JStr ''deadbeef'')])) ''vnp_SecureHash'' = JUndefined \<and>
   obj_get [(''vnp_Amount'', JStr ''1000000''), (''vnp_ResponseCode'', JStr ''00''),
            (''vnp_TxnRef'', JStr ''12345678''), (''vnp_SecureHash'', JStr ''deadbeef'')]
      ''vnp_SecureHash'' = JStr ''deadbeef'' \<and>
   obj_get (fst (verifyReturnUrl example_env example_this
       [(''vnp_Amount'', JStr ''1000000''), (''vnp_ResponseCode'', JStr ''00''),
        (''vnp_TxnRef'', JStr ''12345678''), (''vnp_SecureHash'', JStr ''deadbeef'')])) ''vnp_Amount'' = JNum (Num 10000)"
  by code_simp

section \<open>verifyReturnUrl: the signature fields\<close>

text \<open>
  Claim C7. \<^verbatim>\<open>verifyReturnUrl\<close> removes \<^verbatim>\<open>vnp_SecureHash\<close> and
  \<^verbatim>\<open>vnp_SecureHashType\<close> before it builds the string it signs. The recomputed signature
  is the same whatever the two properties hold; the whole result is the same whatever
  \<^verbatim>\<open>vnp_SecureHashType\<close> holds and whether it is present or not; \<^verbatim>\<open>isVerified\<close> is the
  outcome of comparing the supplied \<^verbatim>\<open>vnp_SecureHash\<close> with the recomputed signature; and
  two values of \<^verbatim>\<open>vnp_SecureHash\<close> for which that comparison has the same outcome give
  the same result.
\<close>

theorem verifyReturnUrl_hash_fields_unsigned:
  "verifyReturnUrl_signed e this (obj_set query ''vnp_SecureHashType'' t) = verifyReturnUrl_signed e this query \<and>
   verifyReturnUrl_signed e this (obj_set query ''vnp_SecureHash'' h) = verifyReturnUrl_signed e this query \<and>
   verifyReturnUrl e this (obj_set query ''vnp_SecureHashType'' t) = verifyReturnUrl e this query \<and>
   verifyReturnUrl e this (AList.delete ''vnp_SecureHashType'' query) = verifyReturnUrl e this query \<and>
   obj_get (fst (verifyReturnUrl e this query)) ''isVerified'' =
     JBool (obj_get query ''vnp_SecureHash'' = JStr (verifyReturnUrl_signed e this query)) \<and>
   ((h = JStr (verifyReturnUrl_signed e this query)) = (h' = JStr (verifyReturnUrl_signed e this query)) \<longrightarrow>
      verifyReturnUrl e this (obj_set query ''vnp_SecureHash'' h) =
      verifyReturnUrl e this (obj_set query ''vnp_SecureHash'' h'))"
proof -
  have a: "verifyReturnUrl_signed e this (obj_set query ''vnp_SecureHashType'' t) = verifyReturnUrl_signed e this query"
    by (rule verifyReturnUrl_signed_cong) (rule verifyReturnUrl_query_set_type)
  have b: "verifyReturnUrl_signed e this (obj_set query ''vnp_SecureHash'' x) = verifyReturnUrl_signed e this query" for x
    by (rule verifyReturnUrl_signed_cong) (rule verifyReturnUrl_query_set_hash)
  have c: "verifyReturnUrl e this (obj_set query ''vnp_SecureHashType'' t) = verifyReturnUrl e this query"
    by (rule verifyReturnUrl_cong) (simp_all add: verifyReturnUrl_query_set_type a obj_get_set)
  have d: "verifyReturnUrl e this (AList.delete ''vnp_SecureHashType'' query) = verifyReturnUrl e this query"
    by (rule verifyReturnUrl_cong)
       (simp_all add: verifyReturnUrl_query_delete_type obj_get_delete
          verifyReturnUrl_signed_cong[OF verifyReturnUrl_query_delete_type])
  have f: "verifyReturnUrl e this (obj_set query ''vnp_SecureHash'' h) =
           verifyReturnUrl e this (obj_set query ''vnp_SecureHash'' h')"
    if "(h = JStr (verifyReturnUrl_signed e this query)) = (h' = JStr (verifyReturnUrl_signed e this query))"
    by (rule verifyReturnUrl_cong) (simp_all add: verifyReturnUrl_query_set_hash b obj_get_set that)
  show ?thesis using a b[of h] c d f verifyReturnUrl_isVerified[of e this query] by blast
qed

text \<open>Two wrong signatures on one callback, and a hint that changes nothing.\<close>

theorem verifyReturnUrl_hash_fields_unsigned_witness:
  "((JStr ''aaa'' = JStr (verifyReturnUrl_signed example_env example_this
        [(''vnp_Amount'', JStr ''1000000''), (''vnp_ResponseCode'', JStr ''00'')])) =
    (JStr ''bbb'' = JStr (verifyReturnUrl_signed example_env example_this
        [(''vnp_Amount'', JStr ''1000000''), (''vnp_ResponseCode'', JStr ''00'')]))) \<and>
   verifyReturnUrl example_env example_this
     (obj_set [(''vnp_Amount'', JStr ''1000000''), (''vnp_ResponseCode'', JStr ''00'')]
        ''vnp_SecureHash'' (JStr ''aaa'')) =
   verifyReturnUrl example_env example_this
     (obj_set [(''vnp_Amount'', JStr ''1000000''), (''vnp_ResponseCode'', JStr ''00'')]
        ''vnp_SecureHash'' (JStr ''bbb'')) \<and>
   verifyReturnUrl_signed example_env example_this
     (obj_set [(''vnp_Amount'', JStr ''1000000''), (''vnp_ResponseCode'', JStr ''00'')]
        ''vnp_SecureHashType'' (JStr ''SHA256'')) =
   verifyReturnUrl_signed example_env example_this
     [(''vnp_Amount'', JStr ''1000000''), (''vnp_ResponseCode'', JStr ''00'')]"
proof -
  let ?q = "[(''vnp_Amount'', JStr ''1000000''), (''vnp_ResponseCode'', JStr ''00'')]"
  have p: "(JStr ''aaa'' = JStr (verifyReturnUrl_signed example_env example_this ?q)) =
           (JStr ''bbb'' = JStr (verifyReturnUrl_signed example_env example_this ?q))"
    by code_simp
  from verifyReturnUrl_hash_fields_unsigned[of example_env example_this ?q "JStr ''SHA256''"
      "JStr ''aaa''" "JStr ''bbb''"] p
  show ?thesis by blast
qed

section \<open>verifyReturnUrl: the argument after the call\<close>

text \<open>
  Claim C10. \<^verbatim>\<open>verifyReturnUrl\<close> deletes \<^verbatim>\<open>vnp_SecureHash\<close> and \<^verbatim>\<open>vnp_SecureHashType\<close>
  from the object it is given: after the call the caller's object holds neither property,
  and its other properties are the same, with the same values and in the same order.
  \<^verbatim>\<open>verifyIpnCall\<close> is the same function.
\<close>

theorem verifyReturnUrl_mutates_query:
  "snd (verifyReturnUrl e this query) =
     filter (\<lambda>p. fst p \<noteq> ''vnp_SecureHash'' \<and> fst p \<noteq> ''vnp_SecureHashType'') query \<and>
   ''vnp_SecureHash'' \<notin> fst ` set (snd (verifyReturnUrl e this query)) \<and>
   ''vnp_SecureHashType'' \<notin> fst ` set (snd (verifyReturnUrl e this query)) \<and>
   obj_get (snd (verifyReturnUrl e this query)) k =
     (if k = ''vnp_SecureHash'' \<or> k = ''vnp_SecureHashType'' then JUndefined else obj_get query k) \<and>
   verifyIpnCall e this query = verifyReturnUrl e this query"
proof -
  have s: "snd (verifyReturnUrl e this query) = verifyReturnUrl_query query"
    by (simp add: verifyReturnUrl_def Let_def)
  have f: "verifyReturnUrl_query query =
      filter (\<lambda>p. fst p \<noteq> ''vnp_SecureHash'' \<and> fst p \<noteq> ''vnp_SecureHashType'') query"
    by (rule verifyReturnUrl_query_filter)
  have m: "''vnp_SecureHash'' \<notin> fst ` set (verifyReturnUrl_query query)"
          "''vnp_SecureHashType'' \<notin> fst ` set (verifyReturnUrl_query query)"
    unfolding f by auto
  have g: "obj_get (verifyReturnUrl_query query) k =
     (if k = ''vnp_SecureHash'' \<or> k = ''vnp_SecureHashType'' then JUndefined else obj_get query k)"
    by (simp add: verifyReturnUrl_query_def obj_get_delete)
  show ?thesis unfolding s verifyIpnCall_def using f m g by simp
qed

section \<open>queryDr and refund: reading the response\<close>

lemma obj_assign_single: "obj_assign ob [(k, v)] = obj_set ob k v"
  by (simp add: obj_assign_Cons obj_assign_Nil obj_set_def)

lemma soft_range_code:
  "in_soft_range (ToNumber e v) \<Longrightarrow> opt_toString e v = Some (toString e v)"
  by (cases v) (auto simp: in_soft_range_def ToNumber_def opt_toString_def)

lemma queryDr_response_soft:
  assumes "in_soft_range (ToNumber e (obj_get r ''vnp_ResponseCode''))"
  shows "queryDr_response e this r =
     Inr (obj_set r ''vnp_Message'' (JStr (getResponseByStatusCode e
        (Some (toString e (obj_get r ''vnp_ResponseCode''))) (vnp_Locale this) QUERY_DR_RESPONSE_MAP)))"
  using assms by (simp add: queryDr_response_def obj_assign_single soft_range_code)

lemma ToNumber_hash_update: "ToNumber (e\<lparr>hash := h\<rparr>) v = ToNumber e v"
  by (cases v) (simp_all add: ToNumber_def)

lemma toString_hash_update: "toString (e\<lparr>hash := h\<rparr>) v = toString e v"
  by (cases v) (simp_all add: toString_def)

lemma queryDr_string_as_pipe:
  "queryDr_stringToCheckSumResponse e this r =
     remove_undefined (spec_pipe e (obj_set r ''vnp_TmnCode'' (JStr (tmnCode this))) spec_queryDr_fields)"
  by (simp add: queryDr_stringToCheckSumResponse_def spec_pipe_def spec_queryDr_fields_def
      obj_get_set defaultConfig_def obj_get_def[of "_ # _"])

lemma refund_string_as_pipe:
  "refund_stringToChecksumResponse e r =
     spec_pipe e (obj_set r ''vnp_Command'' (JStr ''refund'')) spec_refund_fields"
  by (simp add: refund_stringToChecksumResponse_def spec_pipe_def spec_refund_fields_def
      obj_get_set toString_def)

section \<open>queryDr: the soft range\<close>

text \<open>
  Claim C5. When the numeric response code of a \<^verbatim>\<open>queryDr\<close> response lies in the range
  from 90 to 99, \<^verbatim>\<open>queryDr\<close> returns the response with \<^verbatim>\<open>vnp_Message\<close> replaced by the
  looked-up message. No signature is checked: the result is the same for every digest
  function, for every value of \<^verbatim>\<open>vnp_SecureHash\<close> in the response, and when the response
  has no \<^verbatim>\<open>vnp_SecureHash\<close> at all.
\<close>

theorem queryDr_soft_range:
  assumes "queryDr_fetch e this query = Inr responseData"
      and "in_soft_range (ToNumber e (obj_get responseData ''vnp_ResponseCode''))"
  shows "queryDr e this query =
           Inr (obj_set responseData ''vnp_Message'' (JStr (getResponseByStatusCode e
              (Some (toString e (obj_get responseData ''vnp_ResponseCode'')))
              (vnp_Locale this) QUERY_DR_RESPONSE_MAP))) \<and>
         (\<forall>h s. queryDr_response (e\<lparr>hash := h\<rparr>) this (obj_set responseData ''vnp_SecureHash'' s) =
           Inr (obj_set (obj_set responseData ''vnp_SecureHash'' s) ''vnp_Message''
              (JStr (getResponseByStatusCode e
                 (Some (toString e (obj_get responseData ''vnp_ResponseCode'')))
                 (vnp_Locale this) QUERY_DR_RESPONSE_MAP)))) \<and>
         (\<forall>h. queryDr_response (e\<lparr>hash := h\<rparr>) this (AList.delete ''vnp_SecureHash'' responseData) =
           Inr (obj_set (AList.delete ''vnp_SecureHash'' responseData) ''vnp_Message''
              (JStr (getResponseByStatusCode e
                 (Some (toString e (obj_get responseData ''vnp_ResponseCode'')))
                 (vnp_Locale this) QUERY_DR_RESPONSE_MAP))))"
proof -
  have a: "queryDr e this query = queryDr_response e this responseData"
    using assms(1) by (simp add: queryDr_def)
  have b: "in_soft_range (ToNumber (e\<lparr>hash := h\<rparr>)
             (obj_get (obj_set responseData ''vnp_SecureHash'' s) ''vnp_ResponseCode''))" for h s
    using assms(2) by (simp add: ToNumber_hash_update obj_get_set)
  have c: "in_soft_range (ToNumber (e\<lparr>hash := h\<rparr>)
             (obj_get (AList.delete ''vnp_SecureHash'' responseData) ''vnp_ResponseCode''))" for h
    using assms(2) by (simp add: ToNumber_hash_update obj_get_delete)
  have d: "queryDr_response e this responseData =
      Inr (obj_set responseData ''vnp_Message'' (JStr (getResponseByStatusCode e
              (Some (toString e (obj_get responseData ''vnp_ResponseCode'')))
              (vnp_Locale this) QUERY_DR_RESPONSE_MAP)))"
    by (rule queryDr_response_soft[OF assms(2)])
  show ?thesis
    unfolding a d
    by (simp add: queryDr_response_soft[OF b] queryDr_response_soft[OF c]
        toString_hash_update obj_get_set obj_get_delete)
qed

text \<open>A response with the code \<^verbatim>\<open>91\<close> and no signature.\<close>

theorem queryDr_soft_range_witness:
  "queryDr_fetch (example_env_answering example_response_91) example_this example_query =
     Inr example_response_91 \<and>
   in_soft_range (ToNumber (example_env_answering example_response_91)
     (obj_get example_response_91 ''vnp_ResponseCode'')) \<and>
   obj_get example_response_91 ''vnp_SecureHash'' = JUndefined \<and>
   queryDr (example_env_answering example_response_91) example_this example_query =
     Inr [(''vnp_ResponseId'', JStr ''res1''), (''vnp_Command'', JStr ''querydr''),
          (''vnp_ResponseCode'', JStr ''91''), (''vnp_Message'', JStr ''message 91'')]"
proof -
  let ?e = "example_env_answering example_response_91"
  have f: "queryDr_fetch ?e example_this example_query = Inr example_response_91"
    by code_simp
  have r: "in_soft_range (ToNumber ?e (obj_get example_response_91 ''vnp_ResponseCode''))"
    by code_simp
  have u: "obj_get example_response_91 ''vnp_SecureHash'' = JUndefined"
    by code_simp
  have v: "obj_set example_response_91 ''vnp_Message'' (JStr (getResponseByStatusCode ?e
              (Some (toString ?e (obj_get example_response_91 ''vnp_ResponseCode'')))
              (vnp_Locale example_this) QUERY_DR_RESPONSE_MAP)) =
           [(''vnp_ResponseId'', JStr ''res1''), (''vnp_Command'', JStr ''querydr''),
            (''vnp_ResponseCode'', JStr ''91''), (''vnp_Message'', JStr ''message 91'')]"
    by code_simp
  from queryDr_soft_range[OF f r] f r u v show ?thesis by simp
qed

section \<open>queryDr: the signature of the response\<close>

text \<open>
  Claim C4, as the code has it. For a \<^verbatim>\<open>queryDr\<close> response whose numeric response code
  is not in the range from 90 to 99, the string that is signed is the pipe string of the 15
  listed fields in their order, where the fifth, the terminal id, is the
  \<^verbatim>\<open>tmnCode\<close> of the configuration and the other 14 are read from the response, with
  every match of \<^verbatim>\<open>undefined\<close> removed. \<^verbatim>\<open>queryDr\<close> throws the error
  \<^verbatim>\<open>Wrong checksum from VNPay response\<close> if and only if the signature of that string
  differs from the \<^verbatim>\<open>vnp_SecureHash\<close> of the response; otherwise it returns the response
  with the looked-up message.
\<close>

theorem queryDr_checks_response:
  assumes "queryDr_fetch e this query = Inr r"
      and "\<not> in_soft_range (ToNumber e (obj_get r ''vnp_ResponseCode''))"
  shows "queryDr_stringToCheckSumResponse e this r =
           remove_undefined (spec_pipe e (obj_set r ''vnp_TmnCode'' (JStr (tmnCode this))) spec_queryDr_fields) \<and>
         ((queryDr e this query = Inl (Error ''Wrong checksum from VNPay response'')) =
          (JStr (hash e (secureSecret this) (queryDr_stringToCheckSumResponse e this r) (HASH_ALGORITHM this))
             \<noteq> obj_get r ''vnp_SecureHash'')) \<and>
         (JStr (hash e (secureSecret this) (queryDr_stringToCheckSumResponse e this r) (HASH_ALGORITHM this))
             = obj_get r ''vnp_SecureHash'' \<longrightarrow>
          queryDr e this query =
            Inr (obj_set r ''vnp_Message'' (JStr (getResponseByStatusCode e
               (opt_toString e (obj_get r ''vnp_ResponseCode'')) (vnp_Locale this) QUERY_DR_RESPONSE_MAP))))"
  using assms queryDr_string_as_pipe[of e this r]
  by (simp add: queryDr_def queryDr_response_def Let_def obj_assign_single)

text \<open>
  A response signed over the configured terminal id; its absent promotion fields leave two
  empty places at the end of the string.
\<close>

theorem queryDr_checks_response_witness:
  "queryDr_fetch
     (example_env_answering (obj_set example_response_00 ''vnp_SecureHash''
        (JStr ''SHA512:SECRET:res1|querydr|00|OK|TMNCODE|12345678|10000000|NCB|20240101120500|14226112|01|00|order||'')))
     example_this example_query =
     Inr (obj_set example_response_00 ''vnp_SecureHash''
        (JStr ''SHA512:SECRET:res1|querydr|00|OK|TMNCODE|12345678|10000000|NCB|20240101120500|14226112|01|00|order||'')) \<and>
   \<not> in_soft_range (ToNumber example_env (obj_get example_response_00 ''vnp_ResponseCode'')) \<and>
   queryDr_stringToCheckSumResponse example_env example_this example_response_00 =
     ''res1|querydr|00|OK|TMNCODE|12345678|10000000|NCB|20240101120500|14226112|01|00|order||'' \<and>
   queryDr
     (example_env_answering (obj_set example_response_00 ''vnp_SecureHash''
        (JStr ''SHA512:SECRET:res1|querydr|00|OK|TMNCODE|12345678|10000000|NCB|20240101120500|14226112|01|00|order||'')))
     example_this example_query
     \<noteq> Inl (Error ''Wrong checksum from VNPay response'')"
proof -
  let ?r = "obj_set example_response_00 ''vnp_SecureHash''
        (JStr ''SHA512:SECRET:res1|querydr|00|OK|TMNCODE|12345678|10000000|NCB|20240101120500|14226112|01|00|order||'')"
  let ?e = "example_env_answering ?r"
  have f: "queryDr_fetch ?e example_this example_query = Inr ?r"
    by code_simp
  have n: "\<not> in_soft_range (ToNumber ?e (obj_get ?r ''vnp_ResponseCode''))"
    by code_simp
  have n': "\<not> in_soft_range (ToNumber example_env (obj_get example_response_00 ''vnp_ResponseCode''))"
    by code_simp
  have s: "queryDr_stringToCheckSumResponse example_env example_this example_response_00 =
     ''res1|querydr|00|OK|TMNCODE|12345678|10000000|NCB|20240101120500|14226112|01|00|order||''"
    by code_simp
  have m: "JStr (hash ?e (secureSecret example_this)
             (queryDr_stringToCheckSumResponse ?e example_this ?r) (HASH_ALGORITHM example_this)) =
           obj_get ?r ''vnp_SecureHash''"
    by code_simp
  from queryDr_checks_response[OF f n] m f n' s show ?thesis by simp
qed

text \<open>
  Claim C4 as worded takes all 15 fields from the response. This response names the
  terminal \<^verbatim>\<open>OTHER\<close> and is signed over its own 15 fields: the claim's check accepts it,
  the code signs \<^verbatim>\<open>TMNCODE\<close> in the fifth place and throws.
\<close>

theorem queryDr_response_terminal_counterexample:
  "queryDr_fetch
     (example_env_answering (obj_set (obj_set example_response_00 ''vnp_TmnCode'' (JStr ''OTHER''))
        ''vnp_SecureHash''
        (JStr ''SHA512:SECRET:res1|querydr|00|OK|OTHER|12345678|10000000|NCB|20240101120500|14226112|01|00|order||'')))
     example_this example_query =
     Inr (obj_set (obj_set example_response_00 ''vnp_TmnCode'' (JStr ''OTHER''))
        ''vnp_SecureHash''
        (JStr ''SHA512:SECRET:res1|querydr|00|OK|OTHER|12345678|10000000|NCB|20240101120500|14226112|01|00|order||'')) \<and>
   \<not> in_soft_range (ToNumber example_env (obj_get example_response_00 ''vnp_ResponseCode'')) \<and>
   JStr (hash example_env ''SECRET''
      (remove_undefined (spec_pipe example_env
         (obj_set (obj_set example_response_00 ''vnp_TmnCode'' (JStr ''OTHER''))
            ''vnp_SecureHash''
            (JStr ''SHA512:SECRET:res1|querydr|00|OK|OTHER|12345678|10000000|NCB|20240101120500|14226112|01|00|order||''))
         spec_queryDr_fields)) ''SHA512'') =
     obj_get (obj_set (obj_set example_response_00 ''vnp_TmnCode'' (JStr ''OTHER''))
        ''vnp_SecureHash''
        (JStr ''SHA512:SECRET:res1|querydr|00|OK|OTHER|12345678|10000000|NCB|20240101120500|14226112|01|00|order||''))
       ''vnp_SecureHash'' \<and>
   queryDr
     (example_env_answering (obj_set (obj_set example_response_00 ''vnp_TmnCode'' (JStr ''OTHER''))
        ''vnp_SecureHash''
        (JStr ''SHA512:SECRET:res1|querydr|00|OK|OTHER|12345678|10000000|NCB|20240101120500|14226112|01|00|order||'')))
     example_this example_query = Inl (Error ''Wrong checksum from VNPay response'')"
  by code_simp

section \<open>refund: the signature of the response\<close>

text \<open>
  Claim C6, as the code has it. For a \<^verbatim>\<open>refund\<close> response whose numeric response code
  is not in the range from 90 to 99, the string that is signed is the pipe string of the 13
  listed fields in their order, where the second, the command, is the literal
  \<^verbatim>\<open>refund\<close> and the other 12 are read from the response. Nothing is removed from the
  string: an absent field stands in it as \<^verbatim>\<open>undefined\<close>. \<^verbatim>\<open>refund\<close> throws the error
  \<^verbatim>\<open>Wrong checksum from VNPay response\<close> if and only if the signature of that string
  differs from the \<^verbatim>\<open>vnp_SecureHash\<close> of the response, as \<^verbatim>\<open>queryDr\<close> does.
\<close>

theorem refund_checks_response:
  assumes "refund_fetch e this data = Inr r"
      and "\<not> in_soft_range (ToNumber e (obj_get r ''vnp_ResponseCode''))"
  shows "refund_stringToChecksumResponse e r =
           spec_pipe e (obj_set r ''vnp_Command'' (JStr ''refund'')) spec_refund_fields \<and>
         ((refund e this data = Inl (Error ''Wrong checksum from VNPay response'')) =
          (JStr (hash e (secureSecret this) (refund_stringToChecksumResponse e r) (HASH_ALGORITHM this))
             \<noteq> obj_get r ''vnp_SecureHash'')) \<and>
         (JStr (hash e (secureSecret this) (refund_stringToChecksumResponse e r) (HASH_ALGORITHM this))
             = obj_get r ''vnp_SecureHash'' \<longrightarrow>
          refund e this data =
            Inr (obj_set r ''vnp_Message'' (JStr (getResponseByStatusCode e
               (opt_toString e (obj_get r ''vnp_ResponseCode'')) (vnp_Locale this) REFUND_RESPONSE_MAP))))"
  using assms refund_string_as_pipe[of e r]
  by (simp add: refund_def refund_response_def Let_def obj_assign_single)

text \<open>A response without \<^verbatim>\<open>vnp_BankCode\<close>, signed over the string that spells \<^verbatim>\<open>undefined\<close>.\<close>

theorem refund_checks_response_witness:
  "refund_fetch (example_env_answering
     (obj_set (AList.delete ''vnp_BankCode'' (obj_set example_response_00 ''vnp_Command'' (JStr ''refund''))) ''vnp_SecureHash''
        (JStr ''SHA512:SECRET:res1|refund|00|OK|TMNCODE|12345678|10000000|undefined|20240101120500|14226112|01|00|order'')))
     example_this example_refund_data =
     Inr (obj_set (AList.delete ''vnp_BankCode'' (obj_set example_response_00 ''vnp_Command'' (JStr ''refund''))) ''vnp_SecureHash''
        (JStr ''SHA512:SECRET:res1|refund|00|OK|TMNCODE|12345678|10000000|undefined|20240101120500|14226112|01|00|order'')) \<and>
   \<not> in_soft_range (ToNumber example_env (obj_get example_response_00 ''vnp_ResponseCode'')) \<and>
   refund_stringToChecksumResponse example_env
     (AList.delete ''vnp_BankCode'' (obj_set example_response_00 ''vnp_Command'' (JStr ''refund''))) =
     ''res1|refund|00|OK|TMNCODE|12345678|10000000|undefined|20240101120500|14226112|01|00|order'' \<and>
   refund (example_env_answering
     (obj_set (AList.delete ''vnp_BankCode'' (obj_set example_response_00 ''vnp_Command'' (JStr ''refund''))) ''vnp_SecureHash''
        (JStr ''SHA512:SECRET:res1|refund|00|OK|TMNCODE|12345678|10000000|undefined|20240101120500|14226112|01|00|order'')))
     example_this example_refund_data
     \<noteq> Inl (Error ''Wrong checksum from VNPay response'')"
proof -
  let ?r = "(obj_set (AList.delete ''vnp_BankCode'' (obj_set example_response_00 ''vnp_Command'' (JStr ''refund''))) ''vnp_SecureHash''
        (JStr ''SHA512:SECRET:res1|refund|00|OK|TMNCODE|12345678|10000000|undefined|20240101120500|14226112|01|00|order''))"
  let ?e = "example_env_answering ?r"
  have f: "refund_fetch ?e example_this example_refund_data = Inr ?r"
    by code_simp
  have n: "\<not> in_soft_range (ToNumber ?e (obj_get ?r ''vnp_ResponseCode''))"
    by code_simp
  have n': "\<not> in_soft_range (ToNumber example_env (obj_get example_response_00 ''vnp_ResponseCode''))"
    by code_simp
  have s: "refund_stringToChecksumResponse example_env
     (AList.delete ''vnp_BankCode'' (obj_set example_response_00 ''vnp_Command'' (JStr ''refund''))) =
     ''res1|refund|00|OK|TMNCODE|12345678|10000000|undefined|20240101120500|14226112|01|00|order''"
    by code_simp
  have m: "JStr (hash ?e (secureSecret example_this)
             (refund_stringToChecksumResponse ?e ?r) (HASH_ALGORITHM example_this)) =
           obj_get ?r ''vnp_SecureHash''"
    by code_simp
  from refund_checks_response[OF f n] m f n' s show ?thesis by simp
qed

text \<open>
  Claim C6 as worded takes all 13 fields from the response. This response carries the
  command \<^verbatim>\<open>querydr\<close> and is signed over its own 13 fields: the claim's check accepts it,
  the code signs \<^verbatim>\<open>refund\<close> in the second place and throws.
\<close>

theorem refund_response_command_counterexample:
  "refund_fetch (example_env_answering
     (obj_set example_response_00 ''vnp_SecureHash''
        (JStr ''SHA512:SECRET:res1|querydr|00|OK|TMNCODE|12345678|10000000|NCB|20240101120500|14226112|01|00|order'')))
     example_this example_refund_data =
     Inr (obj_set example_response_00 ''vnp_SecureHash''
        (JStr ''SHA512:SECRET:res1|querydr|00|OK|TMNCODE|12345678|10000000|NCB|20240101120500|14226112|01|00|order'')) \<and>
   \<not> in_soft_range (ToNumber example_env (obj_get example_response_00 ''vnp_ResponseCode'')) \<and>
   JStr (hash example_env ''SECRET''
      (spec_pipe example_env
         (obj_set example_response_00 ''vnp_SecureHash''
        (JStr ''SHA512:SECRET:res1|querydr|00|OK|TMNCODE|12345678|10000000|NCB|20240101120500|14226112|01|00|order''))
         spec_refund_fields) ''SHA512'') =
     obj_get (obj_set example_response_00 ''vnp_SecureHash''
        (JStr ''SHA512:SECRET:res1|querydr|00|OK|TMNCODE|12345678|10000000|NCB|20240101120500|14226112|01|00|order'')) ''vnp_SecureHash'' \<and>
   refund (example_env_answering
     (obj_set example_response_00 ''vnp_SecureHash''
        (JStr ''SHA512:SECRET:res1|querydr|00|OK|TMNCODE|12345678|10000000|NCB|20240101120500|14226112|01|00|order'')))
     example_this example_refund_data = Inl (Error ''Wrong checksum from VNPay response'')"
  by code_simp

section \<open>The canonical list of pairs\<close>

lemma buildPaymentUrl_searchParams_eq:
  "buildPaymentUrl_searchParams e this data sp0 =
     sp0 @ map (\<lambda>p. (fst p, toString e (snd p)))
            (filter (\<lambda>p. \<not> build_skips (snd p))
               (sort_by (compare_keys e) (buildPaymentUrl_dataToBuild e this data)))"
  by (simp add: buildPaymentUrl_searchParams_def fold_build_append)

lemma verifyReturnUrl_searchParams_eq:
  "verifyReturnUrl_searchParams e query =
     map (\<lambda>p. (fst p, toString e (snd p)))
       (filter (\<lambda>p. \<not> verify_skips (snd p))
          (sort_by (compare_keys e) (verifyReturnUrl_query query)))"
  by (simp add: verifyReturnUrl_searchParams_def fold_verify_append)

lemma sorted_entries:
  assumes "consistent_comparator (localeCompare e)"
  shows "sorted_wrt (\<lambda>a b. localeCompare e a b \<le> 0)
           (map fst (map (\<lambda>p. (fst p, toString e (snd p))) (filter P (sort_by (compare_keys e) xs))))"
proof -
  have tot: "\<And>a b. compare_keys e a b \<le> 0 \<or> compare_keys e b a \<le> 0"
    using assms by (auto simp: consistent_comparator_def compare_keys_def)
  have tr: "\<And>a b c. compare_keys e a b \<le> 0 \<Longrightarrow> compare_keys e b c \<le> 0 \<Longrightarrow> compare_keys e a c \<le> 0"
    using assms unfolding consistent_comparator_def compare_keys_def by blast
  have "sorted_wrt (\<lambda>a b. compare_keys e a b \<le> 0) (filter P (sort_by (compare_keys e) xs))"
    by (rule sorted_wrt_filter) (rule sorted_sort_by[of "compare_keys e", OF tot tr])
  then show ?thesis by (simp add: sorted_wrt_map compare_keys_def o_def)
qed

lemma mset_entries:
  "mset (map fst (map (\<lambda>p. (fst p, toString e (snd p))) (filter P (sort_by cmp xs)))) =
   mset (map fst (filter P xs))"
proof -
  have "mset (filter P (sort_by cmp xs)) = mset (filter P xs)"
    by (simp add: mset_sort_by)
  then have "mset (map fst (filter P (sort_by cmp xs))) = mset (map fst (filter P xs))"
    by (metis mset_map)
  then show ?thesis by (simp add: o_def)
qed

lemma distinct_obj_assign: "distinct (map fst a) \<Longrightarrow> distinct (map fst (obj_assign a b))"
proof (induction b arbitrary: a)
  case Nil
  then show ?case by (simp add: obj_assign_Nil)
next
  case (Cons p b)
  obtain k v where p: "p = (k, v)" by (cases p)
  show ?case unfolding p obj_assign_Cons
    by (rule Cons.IH) (rule distinct_update[OF Cons.prems])
qed

lemma distinct_dataToBuild: "distinct (map fst (buildPaymentUrl_dataToBuild e this data))"
proof -
  have "distinct (map fst (defaultConfig this))" by (simp add: defaultConfig_def)
  then have "distinct (map fst (obj_assign (defaultConfig this) data))"
    by (rule distinct_obj_assign)
  then show ?thesis
    by (simp add: buildPaymentUrl_dataToBuild_def Let_def obj_set_def distinct_update)
qed

lemma dataToBuild_amount:
  "obj_get (buildPaymentUrl_dataToBuild e this data) ''vnp_Amount'' =
     JNum (num_mul (ToNumber e (obj_get (obj_assign (defaultConfig this) data) ''vnp_Amount'')) (Num 100))"
  by (simp add: buildPaymentUrl_dataToBuild_def Let_def obj_get_set)

lemma map_of_rev_distinct: "distinct (map fst xs) \<Longrightarrow> map_of (rev xs) = map_of xs"
  by (rule map_of_inject_set[THEN iffD2]) (simp_all add: distinct_rev rev_map[symmetric])

lemma assigned_amount:
  "distinct (map fst data) \<Longrightarrow> map_of data ''vnp_Amount'' = Some v \<Longrightarrow>
   obj_get (obj_assign (defaultConfig this) data) ''vnp_Amount'' = v"
  by (simp add: obj_get_assign map_of_rev_distinct)

lemma build_skipped_absent:
  assumes "map_of (buildPaymentUrl_dataToBuild e this data) k = Some v" "build_skips v"
  shows "k \<notin> fst ` set (buildPaymentUrl_searchParams e this data [])"
proof
  assume "k \<in> fst ` set (buildPaymentUrl_searchParams e this data [])"
  then obtain w where w: "(k, w) \<in> set (buildPaymentUrl_dataToBuild e this data)" "\<not> build_skips w"
    by (auto simp: buildPaymentUrl_searchParams_eq set_sort_by)
  from map_of_is_SomeI[OF distinct_dataToBuild w(1)] assms(1) have "w = v" by simp
  with w(2) assms(2) show False by simp
qed

lemma verify_kept_present:
  assumes "map_of query k = Some v" "\<not> verify_skips v" "k \<noteq> ''vnp_SecureHash''" "k \<noteq> ''vnp_SecureHashType''"
  shows "(k, toString e v) \<in> set (verifyReturnUrl_searchParams e query)"
proof -
  have "(k, v) \<in> set query" using assms(1) by (rule map_of_SomeD)
  then have "(k, v) \<in> set (verifyReturnUrl_query query)"
    using assms(3,4) by (simp add: verifyReturnUrl_query_filter)
  then have "(k, v) \<in> set (filter (\<lambda>p. \<not> verify_skips (snd p)) (sort_by (compare_keys e) (verifyReturnUrl_query query)))"
    using assms(2) by (simp add: set_sort_by)
  then show ?thesis unfolding verifyReturnUrl_searchParams_eq
    by (force simp: image_iff)
qed

section \<open>The order of the canonical string\<close>

text \<open>The collation of the example environment is a consistent comparator.\<close>

lemma example_localeCompare_le:
  "example_localeCompare a b \<le> 0 \<longleftrightarrow> collation_key a \<le> collation_key b"
  by (auto simp: example_localeCompare_def)

lemma example_localeCompare_consistent: "consistent_comparator (localeCompare example_env)"
proof -
  have "localeCompare example_env = example_localeCompare" by (simp add: example_env_def)
  then show ?thesis
    unfolding consistent_comparator_def example_localeCompare_le
    by (auto simp: example_localeCompare_le)
qed

text \<open>
  Claim C2, as the code has it. Both functions sort the entries with
  \<^verbatim>\<open>key1.toString().localeCompare(key2.toString())\<close>, the collation of the host's locale,
  not the order of the bytes. For a consistent comparator, the names in the list that is
  serialized and signed are in ascending \<^verbatim>\<open>localeCompare\<close> order, and they are the names
  of the entries that the function does not skip, each once per entry: in
  \<^verbatim>\<open>verifyReturnUrl\<close> the entries of the query without the two signature fields, in
  \<^verbatim>\<open>buildPaymentUrl\<close> the entries of the merged parameters.
\<close>

theorem canonical_order_is_localeCompare:
  assumes "consistent_comparator (localeCompare e)"
  shows "sorted_wrt (\<lambda>a b. localeCompare e a b \<le> 0) (map fst (verifyReturnUrl_searchParams e query)) \<and>
         mset (map fst (verifyReturnUrl_searchParams e query)) =
           mset (map fst (filter (\<lambda>p. \<not> verify_skips (snd p)) (verifyReturnUrl_query query))) \<and>
         sorted_wrt (\<lambda>a b. localeCompare e a b \<le> 0) (map fst (buildPaymentUrl_searchParams e this data [])) \<and>
         mset (map fst (buildPaymentUrl_searchParams e this data [])) =
           mset (map fst (filter (\<lambda>p. \<not> build_skips (snd p)) (buildPaymentUrl_dataToBuild e this data)))"
  unfolding buildPaymentUrl_searchParams_eq verifyReturnUrl_searchParams_eq append_Nil
  using sorted_entries[OF assms] mset_entries by blast



text \<open>Two names that differ in the case of a letter, in the example collation.\<close>

theorem canonical_order_is_localeCompare_witness:
  "consistent_comparator (localeCompare example_env) \<and>
   map fst (verifyReturnUrl_searchParams example_env
      [(''vnp_Z'', JStr ''1''), (''vnp_a'', JStr ''2''), (''vnp_SecureHash'', JStr ''ff'')]) =
     [''vnp_a'', ''vnp_Z''] \<and>
   sorted_wrt (\<lambda>a b. localeCompare example_env a b \<le> 0) [''vnp_a'', ''vnp_Z'']"
proof -
  have k: "map fst (verifyReturnUrl_searchParams example_env
      [(''vnp_Z'', JStr ''1''), (''vnp_a'', JStr ''2''), (''vnp_SecureHash'', JStr ''ff'')]) =
     [''vnp_a'', ''vnp_Z'']"
    by code_simp
  from canonical_order_is_localeCompare[OF example_localeCompare_consistent,
      of "[(''vnp_Z'', JStr ''1''), (''vnp_a'', JStr ''2''), (''vnp_SecureHash'', JStr ''ff'')]"]
    example_localeCompare_consistent k
  show ?thesis by simp
qed

text \<open>
  Claim C2 as worded has the names in the order of their bytes. For the names
  \<^verbatim>\<open>vnp_Z\<close> and \<^verbatim>\<open>vnp_a\<close> the byte order puts \<^verbatim>\<open>vnp_Z\<close> first (\<open>Z\<close> is byte 90,
  \<open>a\<close> is byte 97), and \<^verbatim>\<open>'vnp_a'.localeCompare('vnp_Z')\<close> is negative, so both
  functions put \<^verbatim>\<open>vnp_a\<close> first.
\<close>

theorem canonical_order_ascii_counterexample:
  "map fst (verifyReturnUrl_searchParams example_env
      [(''vnp_Z'', JStr ''1''), (''vnp_a'', JStr ''2''), (''vnp_SecureHash'', JStr ''ff'')]) =
     [''vnp_a'', ''vnp_Z''] \<and>
   sort (map fst (filter (\<lambda>p. \<not> verify_skips (snd p)) (verifyReturnUrl_query
      [(''vnp_Z'', JStr ''1''), (''vnp_a'', JStr ''2''), (''vnp_SecureHash'', JStr ''ff'')]))) =
     [''vnp_Z'', ''vnp_a''] \<and>
   map fst (buildPaymentUrl_searchParams example_env example_this
      [(''vnp_Z'', JStr ''1''), (''vnp_a'', JStr ''2'')] []) =
     [''vnp_a'', ''vnp_Command'', ''vnp_CreateDate'', ''vnp_CurrCode'', ''vnp_Locale'',
      ''vnp_OrderType'', ''vnp_TmnCode'', ''vnp_Version'', ''vnp_Z''] \<and>
   \<not> sorted [''vnp_a'', ''vnp_Command'', ''vnp_CreateDate'', ''vnp_CurrCode'', ''vnp_Locale'',
      ''vnp_OrderType'', ''vnp_TmnCode'', ''vnp_Version'', ''vnp_Z'']"
proof -
  have k: "map fst (verifyReturnUrl_searchParams example_env
      [(''vnp_Z'', JStr ''1''), (''vnp_a'', JStr ''2''), (''vnp_SecureHash'', JStr ''ff'')]) =
     [''vnp_a'', ''vnp_Z'']"
    by code_simp
  have q: "map fst (filter (\<lambda>p. \<not> verify_skips (snd p)) (verifyReturnUrl_query
      [(''vnp_Z'', JStr ''1''), (''vnp_a'', JStr ''2''), (''vnp_SecureHash'', JStr ''ff'')])) =
     [''vnp_Z'', ''vnp_a'']"
    by code_simp
  have s: "sort [''vnp_Z'', ''vnp_a''] = [''vnp_Z'', ''vnp_a'']"
    by simp
  have b: "map fst (buildPaymentUrl_searchParams example_env example_this
      [(''vnp_Z'', JStr ''1''), (''vnp_a'', JStr ''2'')] []) =
     [''vnp_a'', ''vnp_Command'', ''vnp_CreateDate'', ''vnp_CurrCode'', ''vnp_Locale'',
      ''vnp_OrderType'', ''vnp_TmnCode'', ''vnp_Version'', ''vnp_Z'']"
    by code_simp
  have n: "\<not> sorted [''vnp_a'', ''vnp_Command'', ''vnp_CreateDate'', ''vnp_CurrCode'', ''vnp_Locale'',
      ''vnp_OrderType'', ''vnp_TmnCode'', ''vnp_Version'', ''vnp_Z'']"
    by simp
  show ?thesis unfolding k q b using s n by simp
qed

section \<open>buildPaymentUrl: the URL it returns\<close>

lemma buildPaymentUrl_url_Some:
  "payment_endpoint e this = Some u \<Longrightarrow>
   buildPaymentUrl_url e this data =
     Inr (u\<lparr>url_searchParams :=
            buildPaymentUrl_searchParams e this data (url_searchParams u) @
            [(''vnp_SecureHash'',
              hash e (secureSecret this)
                (serialize (buildPaymentUrl_searchParams e this data (url_searchParams u)))
                (HASH_ALGORITHM this))]\<rparr>)"
  by (simp add: buildPaymentUrl_url_def Let_def url_search_def)

section \<open>Fields whose value is the number 0\<close>

text \<open>
  Claim C9. The skip test of \<^verbatim>\<open>buildPaymentUrl\<close> starts with \<^verbatim>\<open>!value\<close> and so skips the
  number 0; the skip test of \<^verbatim>\<open>verifyReturnUrl\<close> does not. An amount of 0 is still 0
  after the multiplication by 100 and is in neither the query string of the built URL nor
  the string that is signed (both are the serialization of the same list), and so is any
  other entry of the merged parameters that the test skips; in \<^verbatim>\<open>verifyReturnUrl\<close> a
  field whose value is the number 0 is in the canonical list, rendered by
  \<^verbatim>\<open>toString\<close>.
\<close>

theorem zero_valued_fields:
  assumes "distinct (map fst data)"
      and "map_of data ''vnp_Amount'' = Some (JNum (Num 0))"
      and "map_of query k = Some (JNum (Num 0))"
      and "k \<noteq> ''vnp_SecureHash''" and "k \<noteq> ''vnp_SecureHashType''"
  shows "build_skips (JNum (Num 0)) \<and> \<not> verify_skips (JNum (Num 0)) \<and>
         obj_get (buildPaymentUrl_dataToBuild e this data) ''vnp_Amount'' = JNum (Num 0) \<and>
         ''vnp_Amount'' \<notin> fst ` set (buildPaymentUrl_searchParams e this data []) \<and>
         (\<forall>u. payment_endpoint e this = Some u \<and> url_searchParams u = [] \<longrightarrow>
            (\<exists>u'. buildPaymentUrl_url e this data = Inr u' \<and>
                  map fst (url_searchParams u') =
                    map fst (buildPaymentUrl_searchParams e this data []) @ [''vnp_SecureHash''] \<and>
                  ''vnp_Amount'' \<notin> fst ` set (url_searchParams u'))) \<and>
         (\<forall>k' v. map_of (buildPaymentUrl_dataToBuild e this data) k' = Some v \<and> build_skips v \<longrightarrow>
            k' \<notin> fst ` set (buildPaymentUrl_searchParams e this data [])) \<and>
         (k, numberToString e (Num 0)) \<in> set (verifyReturnUrl_searchParams e query)"
proof -
  have s: "build_skips (JNum (Num 0))" "\<not> verify_skips (JNum (Num 0))"
    by (simp_all add: build_skips_def verify_skips_def truthy_def)
  have a: "obj_get (buildPaymentUrl_dataToBuild e this data) ''vnp_Amount'' = JNum (Num 0)"
    using assigned_amount[OF assms(1,2), of this]
    by (simp add: dataToBuild_amount ToNumber_def num_mul_def)
  have "''vnp_Amount'' \<in> fst ` set (buildPaymentUrl_dataToBuild e this data)"
    by (simp add: buildPaymentUrl_dataToBuild_def Let_def obj_set_def dom_update)
  then obtain w where "map_of (buildPaymentUrl_dataToBuild e this data) ''vnp_Amount'' = Some w"
    by (metis domD dom_map_of_conv_image_fst)
  with a have m: "map_of (buildPaymentUrl_dataToBuild e this data) ''vnp_Amount'' = Some (JNum (Num 0))"
    by (simp add: obj_get_def)
  have b: "''vnp_Amount'' \<notin> fst ` set (buildPaymentUrl_searchParams e this data [])"
    by (rule build_skipped_absent[OF m s(1)])
  have c: "\<exists>u'. buildPaymentUrl_url e this data = Inr u' \<and>
                  map fst (url_searchParams u') =
                    map fst (buildPaymentUrl_searchParams e this data []) @ [''vnp_SecureHash''] \<and>
                  ''vnp_Amount'' \<notin> fst ` set (url_searchParams u')"
    if "payment_endpoint e this = Some u" "url_searchParams u = []" for u
    using buildPaymentUrl_url_Some[OF that(1), of data] that(2) b by auto
  have d: "(k, toString e (JNum (Num 0))) \<in> set (verifyReturnUrl_searchParams e query)"
    by (rule verify_kept_present[OF assms(3) s(2) assms(4,5)])
  show ?thesis using s a b c d build_skipped_absent[of e this data]
    by (auto simp: toString_def)
qed

text \<open>The same two fields given to both functions.\<close>

theorem zero_valued_fields_witness:
  "distinct (map fst [(''vnp_Amount'', JNum (Num 0)), (''vnp_TxnRef'', JStr ''12345678'')]) \<and>
   map_of [(''vnp_Amount'', JNum (Num 0)), (''vnp_TxnRef'', JStr ''12345678'')] ''vnp_Amount'' =
     Some (JNum (Num 0)) \<and>
   ''vnp_Amount'' \<notin> fst ` set (buildPaymentUrl_searchParams example_env example_this
      [(''vnp_Amount'', JNum (Num 0)), (''vnp_TxnRef'', JStr ''12345678'')] []) \<and>
   (''vnp_Amount'', ''0'') \<in> set (verifyReturnUrl_searchParams example_env
      [(''vnp_Amount'', JNum (Num 0)), (''vnp_TxnRef'', JStr ''12345678'')])"
proof -
  let ?d = "[(''vnp_Amount'', JNum (Num 0)), (''vnp_TxnRef'', JStr ''12345678'')]"
  have h1: "distinct (map fst ?d)" by simp
  have h2: "map_of ?d ''vnp_Amount'' = Some (JNum (Num 0))" by simp
  have n: "numberToString example_env (Num 0) = ''0''" by code_simp
  from zero_valued_fields[OF h1 h2 h2, of example_env example_this] h1 h2 n
  show ?thesis by simp
qed

section \<open>From the built URL back to the callback\<close>

lemma keys_obj_assign: "fst ` set (obj_assign a b) = fst ` set a \<union> fst ` set b"
proof (induction b arbitrary: a)
  case Nil
  show ?case by (simp add: obj_assign_Nil)
next
  case (Cons p b)
  obtain k v where p: "p = (k, v)" by (cases p)
  show ?case unfolding p obj_assign_Cons Cons.IH by (auto simp: dom_update)
qed

lemma keys_dataToBuild:
  "fst ` set (buildPaymentUrl_dataToBuild e this data) \<subseteq>
     fst ` set (defaultConfig this) \<union> fst ` set data \<union> {''vnp_Amount'', ''vnp_CreateDate''}"
  by (auto simp: buildPaymentUrl_dataToBuild_def Let_def obj_set_def dom_update keys_obj_assign)

lemma keys_searchParams:
  "fst ` set (buildPaymentUrl_searchParams e this data []) \<subseteq>
     fst ` set (buildPaymentUrl_dataToBuild e this data)"
  by (force simp: buildPaymentUrl_searchParams_eq set_sort_by)

lemma hash_fields_not_built:
  assumes "''vnp_SecureHash'' \<notin> fst ` set data" "''vnp_SecureHashType'' \<notin> fst ` set data"
  shows "''vnp_SecureHash'' \<notin> fst ` set (buildPaymentUrl_searchParams e this data [])"
    and "''vnp_SecureHashType'' \<notin> fst ` set (buildPaymentUrl_searchParams e this data [])"
proof -
  have d: "fst ` set (defaultConfig this) =
      {''vnp_TmnCode'', ''vnp_Version'', ''vnp_CurrCode'', ''vnp_Locale'', ''vnp_Command'', ''vnp_OrderType''}"
    by (auto simp: defaultConfig_def)
  have "''vnp_SecureHash'' \<notin> fst ` set (buildPaymentUrl_dataToBuild e this data)"
    using keys_dataToBuild[of e this data] assms(1) unfolding d by auto
  then show "''vnp_SecureHash'' \<notin> fst ` set (buildPaymentUrl_searchParams e this data [])"
    using keys_searchParams[of e this data] by blast
  have "''vnp_SecureHashType'' \<notin> fst ` set (buildPaymentUrl_dataToBuild e this data)"
    using keys_dataToBuild[of e this data] assms(2) unfolding d by auto
  then show "''vnp_SecureHashType'' \<notin> fst ` set (buildPaymentUrl_searchParams e this data [])"
    using keys_searchParams[of e this data] by blast
qed

lemma distinct_searchParams: "distinct (map fst (buildPaymentUrl_searchParams e this data []))"
proof -
  let ?D = "buildPaymentUrl_dataToBuild e this data"
  have "mset (map fst (sort_by (compare_keys e) ?D)) = mset (map fst ?D)"
    by (simp add: mset_sort_by)
  then have "distinct (map fst (sort_by (compare_keys e) ?D))"
    using distinct_dataToBuild[of e this data] by (metis mset_eq_imp_distinct_iff)
  then have "distinct (map fst (filter (\<lambda>p. \<not> build_skips (snd p)) (sort_by (compare_keys e) ?D)))"
    by (rule distinct_map_filter)
  then show ?thesis by (simp add: buildPaymentUrl_searchParams_eq o_def)
qed

lemma toString_kept_nonempty:
  assumes "\<forall>n. numberToString e n \<noteq> []" "\<not> build_skips v"
  shows "toString e v \<noteq> []"
  using assms by (cases v) (auto simp: build_skips_def truthy_def toString_def)

lemma searchParams_values_nonempty:
  assumes "\<forall>n. numberToString e n \<noteq> []"
  shows "\<forall>p \<in> set (buildPaymentUrl_searchParams e this data []). snd p \<noteq> []"
  using toString_kept_nonempty[OF assms] by (auto simp: buildPaymentUrl_searchParams_eq)

lemma obj_assign_fresh: "distinct (map fst (a @ b)) \<Longrightarrow> obj_assign a b = a @ b"
proof (induction b arbitrary: a)
  case Nil
  show ?case by (simp add: obj_assign_Nil)
next
  case (Cons p b)
  obtain k v where p: "p = (k, v)" by (cases p)
  have k: "k \<notin> fst ` set a" using Cons.prems by (auto simp: p)
  have u: "AList.update k v a = a @ [(k, v)]" using k by (induction a) auto
  have "distinct (map fst ((a @ [(k, v)]) @ b))" using Cons.prems by (simp add: p)
  from Cons.IH[OF this] show ?case by (simp add: p obj_assign_Cons u)
qed

lemma keys_as_strings: "map fst (as_strings ps) = map fst ps"
  by (induction ps) (auto simp: as_strings_def)

lemma parseQuery_serialized:
  assumes "distinct (map fst ps)" "CHR ''?'' \<notin> set base" "frag = [] \<or> hd frag = CHR ''#''"
  shows "parseQuery (base @ CHR ''?'' # serialize ps @ frag) = as_strings ps"
proof -
  have "href_query (base @ CHR ''?'' # serialize ps @ frag) = serialize ps"
    by (rule href_query_url[OF assms(2,3) serialize_no_hash])
  moreover have "obj_assign [] (as_strings ps) = as_strings ps"
    using obj_assign_fresh[of "[]" "as_strings ps"] assms(1) by (simp add: keys_as_strings)
  ultimately show ?thesis
    by (simp add: parseQuery_def parse_urlencoded_serialize)
qed

lemma verify_query_of_built:
  assumes "''vnp_SecureHash'' \<notin> fst ` set ps" "''vnp_SecureHashType'' \<notin> fst ` set ps"
  shows "verifyReturnUrl_query (as_strings (ps @ [(''vnp_SecureHash'', s)])) = as_strings ps"
    and "obj_get (as_strings (ps @ [(''vnp_SecureHash'', s)])) ''vnp_SecureHash'' = JStr s"
proof -
  have f: "filter (\<lambda>p. fst p \<noteq> ''vnp_SecureHash'' \<and> fst p \<noteq> ''vnp_SecureHashType'') (as_strings ps) = as_strings ps"
    using assms by (induction ps) (auto simp: as_strings_def)
  show "verifyReturnUrl_query (as_strings (ps @ [(''vnp_SecureHash'', s)])) = as_strings ps"
    using f by (simp add: verifyReturnUrl_query_filter as_strings_def)
  have "fst ` set (as_strings ps) = fst ` set ps"
    using keys_as_strings[of ps] by (metis list.set_map)
  then have "map_of (as_strings ps) ''vnp_SecureHash'' = None"
    using assms(1) by (simp add: map_of_eq_None_iff)
  then show "obj_get (as_strings (ps @ [(''vnp_SecureHash'', s)])) ''vnp_SecureHash'' = JStr s"
    by (simp add: obj_get_def as_strings_def map_add_def)
qed

lemma verify_searchParams_of_sorted:
  assumes "sorted_wrt (\<lambda>a b. localeCompare e a b \<le> 0) (map fst ps)"
      and "\<forall>p \<in> set ps. snd p \<noteq> []"
      and "verifyReturnUrl_query query = as_strings ps"
  shows "verifyReturnUrl_searchParams e query = ps"
proof -
  have "sorted_wrt (\<lambda>a b. compare_keys e a b \<le> 0) (as_strings ps)"
    using assms(1) by (simp add: sorted_wrt_map compare_keys_def as_strings_def case_prod_beta)
  then have s: "sort_by (compare_keys e) (as_strings ps) = as_strings ps"
    by (rule sort_by_sorted)
  have f: "filter (\<lambda>p. \<not> verify_skips (snd p)) (as_strings ps) = as_strings ps"
    using assms(2) by (induction ps) (auto simp: as_strings_def verify_skips_def)
  have m: "map (\<lambda>p. (fst p, toString e (snd p))) (as_strings ps) = ps"
    by (induction ps) (auto simp: as_strings_def toString_def)
  show ?thesis unfolding verifyReturnUrl_searchParams_eq assms(3) s f m ..
qed

section \<open>Round trip\<close>

text \<open>
  Claim C1. Let the endpoint of the configuration be a URL without a query of its own, and
  let the payment parameters not contain the two signature fields. Then
  \<^verbatim>\<open>buildPaymentUrl\<close> returns a URL, and \<^verbatim>\<open>verifyReturnUrl\<close>, under the same
  configuration and secret, given the field map parsed from the query string of that URL,
  returns \<^verbatim>\<open>isVerified = true\<close>. The environment is any in which \<^verbatim>\<open>localeCompare\<close>
  is a consistent comparator and \<^verbatim>\<open>Number.prototype.toString\<close> never returns the empty
  string, as in JavaScript.
\<close>

theorem build_then_verify:
  assumes cons: "consistent_comparator (localeCompare e)"
      and nts: "\<forall>n. numberToString e n \<noteq> []"
      and ep: "payment_endpoint e this = Some u"
      and q: "url_searchParams u = []"
      and b: "CHR ''?'' \<notin> set (url_base u)"
      and f: "url_fragment u = [] \<or> hd (url_fragment u) = CHR ''#''"
      and h: "''vnp_SecureHash'' \<notin> fst ` set data"
      and t: "''vnp_SecureHashType'' \<notin> fst ` set data"
  shows "\<exists>href. buildPaymentUrl e this data = Inr href \<and>
           obj_get (fst (verifyReturnUrl e this (parseQuery href))) ''isVerified'' = JBool True"
proof -
  let ?L = "buildPaymentUrl_searchParams e this data []"
  let ?s = "hash e (secureSecret this) (serialize ?L) (HASH_ALGORITHM this)"
  let ?ps = "?L @ [(''vnp_SecureHash'', ?s)]"
  let ?href = "url_base u @ CHR ''?'' # serialize ?ps @ url_fragment u"
  have hn: "''vnp_SecureHash'' \<notin> fst ` set ?L" and tn: "''vnp_SecureHashType'' \<notin> fst ` set ?L"
    using hash_fields_not_built[OF h t] by auto
  have ne: "serialize ?ps \<noteq> []" by (simp add: serialize_empty)
  have built: "buildPaymentUrl e this data = Inr ?href"
    using ne by (simp add: buildPaymentUrl_def buildPaymentUrl_url_Some[OF ep] q
        url_toString_def url_search_def Let_def)
  have dist: "distinct (map fst ?ps)"
    using distinct_searchParams[of e this data] hn by (simp add: image_set[symmetric] del: image_set)
  have parsed: "parseQuery ?href = as_strings ?ps"
    by (rule parseQuery_serialized[OF dist b f])
  have vq: "verifyReturnUrl_query (parseQuery ?href) = as_strings ?L"
    unfolding parsed by (rule verify_query_of_built(1)[OF hn tn])
  have sh: "obj_get (parseQuery ?href) ''vnp_SecureHash'' = JStr ?s"
    unfolding parsed by (rule verify_query_of_built(2)[OF hn tn])
  have sorted: "sorted_wrt (\<lambda>a b. localeCompare e a b \<le> 0) (map fst ?L)"
    unfolding buildPaymentUrl_searchParams_eq append_Nil by (rule sorted_entries[OF cons])
  have sp: "verifyReturnUrl_searchParams e (parseQuery ?href) = ?L"
    by (rule verify_searchParams_of_sorted[OF sorted searchParams_values_nonempty[OF nts] vq])
  have "verifyReturnUrl_signed e this (parseQuery ?href) = ?s"
    by (simp add: verifyReturnUrl_signed_def sp)
  with sh have "obj_get (fst (verifyReturnUrl e this (parseQuery ?href))) ''isVerified'' = JBool True"
    by (simp add: verifyReturnUrl_isVerified)
  with built show ?thesis by blast
qed

text \<open>The example environment meets the two conditions on the runtime.\<close>

lemma show_dec_nonempty: "show_dec n \<noteq> []"
  by (subst show_dec.simps) simp

lemma example_numberToString_nonempty: "\<forall>n. numberToString example_env n \<noteq> []"
proof
  fix n
  have "example_numberToString n \<noteq> []"
    by (cases n) (simp_all add: example_numberToString_def show_dec_nonempty)
  then show "numberToString example_env n \<noteq> []" by (simp add: example_env_def)
qed

text \<open>The parameters of the example in the class's documentation, without the return URL.\<close>

theorem build_then_verify_witness:
  "consistent_comparator (localeCompare example_env) \<and>
   (\<forall>n. numberToString example_env n \<noteq> []) \<and>
   payment_endpoint example_env example_this =
     Some \<lparr>url_base = ''https://sandbox.vnpayment.vn/paymentv2/vpcpay.html'',
           url_searchParams = [], url_fragment = []\<rparr> \<and>
   buildPaymentUrl example_env example_this
     [(''vnp_Amount'', JNum (Num 100000)), (''vnp_IpAddr'', JStr ''192.168.0.1''),
      (''vnp_TxnRef'', JStr ''12345678'')] =
     Inr ''https://sandbox.vnpayment.vn/paymentv2/vpcpay.html?vnp_Amount=10000000&vnp_Command=pay&vnp_CreateDate=20240102030405&vnp_CurrCode=VND&vnp_IpAddr=192.168.0.1&vnp_Locale=vn&vnp_OrderType=other&vnp_TmnCode=TMNCODE&vnp_TxnRef=12345678&vnp_Version=2.1.0&vnp_SecureHash=SHA512%3ASECRET%3Avnp_Amount%3D10000000%26vnp_Command%3Dpay%26vnp_CreateDate%3D20240102030405%26vnp_CurrCode%3DVND%26vnp_IpAddr%3D192.168.0.1%26vnp_Locale%3Dvn%26vnp_OrderType%3Dother%26vnp_TmnCode%3DTMNCODE%26vnp_TxnRef%3D12345678%26vnp_Version%3D2.1.0'' \<and>
   obj_get (fst (verifyReturnUrl example_env example_this (parseQuery
     ''https://sandbox.vnpayment.vn/paymentv2/vpcpay.html?vnp_Amount=10000000&vnp_Command=pay&vnp_CreateDate=20240102030405&vnp_CurrCode=VND&vnp_IpAddr=192.168.0.1&vnp_Locale=vn&vnp_OrderType=other&vnp_TmnCode=TMNCODE&vnp_TxnRef=12345678&vnp_Version=2.1.0&vnp_SecureHash=SHA512%3ASECRET%3Avnp_Amount%3D10000000%26vnp_Command%3Dpay%26vnp_CreateDate%3D20240102030405%26vnp_CurrCode%3DVND%26vnp_IpAddr%3D192.168.0.1%26vnp_Locale%3Dvn%26vnp_OrderType%3Dother%26vnp_TmnCode%3DTMNCODE%26vnp_TxnRef%3D12345678%26vnp_Version%3D2.1.0'')))
     ''isVerified'' = JBool True"
proof -
  let ?d = "[(''vnp_Amount'', JNum (Num 100000)), (''vnp_IpAddr'', JStr ''192.168.0.1''),
      (''vnp_TxnRef'', JStr ''12345678'')]"
  have ep: "payment_endpoint example_env example_this =
     Some \<lparr>url_base = ''https://sandbox.vnpayment.vn/paymentv2/vpcpay.html'',
           url_searchParams = [], url_fragment = []\<rparr>"
    by code_simp
  have built: "buildPaymentUrl example_env example_this ?d =
     Inr ''https://sandbox.vnpayment.vn/paymentv2/vpcpay.html?vnp_Amount=10000000&vnp_Command=pay&vnp_CreateDate=20240102030405&vnp_CurrCode=VND&vnp_IpAddr=192.168.0.1&vnp_Locale=vn&vnp_OrderType=other&vnp_TmnCode=TMNCODE&vnp_TxnRef=12345678&vnp_Version=2.1.0&vnp_SecureHash=SHA512%3ASECRET%3Avnp_Amount%3D10000000%26vnp_Command%3Dpay%26vnp_CreateDate%3D20240102030405%26vnp_CurrCode%3DVND%26vnp_IpAddr%3D192.168.0.1%26vnp_Locale%3Dvn%26vnp_OrderType%3Dother%26vnp_TmnCode%3DTMNCODE%26vnp_TxnRef%3D12345678%26vnp_Version%3D2.1.0''"
    by code_simp
  have r: "\<exists>href. buildPaymentUrl example_env example_this ?d = Inr href \<and>
           obj_get (fst (verifyReturnUrl example_env example_this (parseQuery href))) ''isVerified'' = JBool True"
    by (rule build_then_verify[OF example_localeCompare_consistent example_numberToString_nonempty ep])
       simp_all
  show ?thesis using r ep example_localeCompare_consistent example_numberToString_nonempty
    unfolding built by simp
qed

section \<open>buildPaymentUrl: no validation\<close>









end
